theory Spec2Isabelle
  imports Main
begin

section \<open>Bulk API 2.0 ingest job: constants and data\<close>

text \<open>
  The Go source declares \<^verbatim>\<open>ColumnDelimiter\<close>, \<^verbatim>\<open>ContentType\<close>,
  \<^verbatim>\<open>LineEnding\<close>, \<^verbatim>\<open>Operation\<close> and \<^verbatim>\<open>State\<close> as named string
  types, so any string is a value of them; the constants are particular strings.
\<close>

type_synonym ColumnDelimiter = string
type_synonym ContentType = string
type_synonym LineEnding = string
type_synonym Operation = string
type_synonym State = string
type_synonym JobType = string

definition Backquote :: ColumnDelimiter where "Backquote = ''BACKQUOTE''"
definition Caret :: ColumnDelimiter where "Caret = ''CARET''"
definition Comma :: ColumnDelimiter where "Comma = ''COMMA''"
definition Pipe :: ColumnDelimiter where "Pipe = ''PIPE''"
definition SemiColon :: ColumnDelimiter where "SemiColon = ''SEMICOLON''"
definition Tab :: ColumnDelimiter where "Tab = ''TAB''"

definition CSV :: ContentType where "CSV = ''CSV''"

definition Linefeed :: LineEnding where "Linefeed = ''LF''"
definition CarriageReturnLinefeed :: LineEnding where "CarriageReturnLinefeed = ''CRLF''"

definition Insert :: Operation where "Insert = ''insert''"
definition Delete :: Operation where "Delete = ''delete''"
definition HardDelete :: Operation where "HardDelete = ''hardDelete''"
definition Update :: Operation where "Update = ''update''"
definition Upsert :: Operation where "Upsert = ''upsert''"

definition sfID :: string where "sfID = ''sf__Id''"
definition sfError :: string where "sfError = ''sf__Error''"
definition sfCreated :: string where "sfCreated = ''sf__Created''"

text \<open>The delimiter runes returned by \<^verbatim>\<open>delimiter()\<close>, by their ASCII codes.\<close>

definition rune_tab :: char where "rune_tab = CHR 0x09"
definition rune_semicolon :: char where "rune_semicolon = CHR 0x3B"
definition rune_pipe :: char where "rune_pipe = CHR 0x7C"
definition rune_caret :: char where "rune_caret = CHR 0x5E"
definition rune_backquote :: char where "rune_backquote = CHR 0x60"
definition rune_comma :: char where "rune_comma = CHR 0x2C"

record Options =
  ColumnDelimiter :: ColumnDelimiter
  ContentType :: ContentType
  ExternalIDFieldName :: string
  LineEnding :: LineEnding
  Object :: string
  Operation :: Operation

text \<open>
  \<^verbatim>\<open>WriteResponse\<close>: the job record the server returns. Its \<^verbatim>\<open>APIVersion\<close>
  (a float32) is read by no function modelled here and is left out.
\<close>

record WriteResponse =
  wr_ColumnDelimiter :: ColumnDelimiter
  wr_ConcurrencyMode :: string
  wr_ContentType :: string
  wr_ContentURL :: string
  wr_CreatedByID :: string
  wr_CreatedDate :: string
  wr_ExternalIDFieldName :: string
  wr_ID :: string
  wr_JobType :: JobType
  wr_LineEnding :: LineEnding
  wr_Object :: string
  wr_Operation :: Operation
  wr_State :: State
  wr_SystemModstamp :: string

text \<open>
  \<^verbatim>\<open>Job\<close>: the session is a collaborator outside the repository's files; the
  functions that call it take it as a parameter below.
\<close>

record Job =
  WriteResponse :: WriteResponse

subsection \<open>Delimiter resolution\<close>

text \<open>\<^verbatim>\<open>func (j *Job) delimiter() rune\<close>: the switch, in the source's case order.\<close>

definition delimiter :: "Job \<Rightarrow> char" where
  "delimiter j =
     (let d = wr_ColumnDelimiter (WriteResponse j) in
      if d = Tab then rune_tab
      else if d = SemiColon then rune_semicolon
      else if d = Pipe then rune_pipe
      else if d = Caret then rune_caret
      else if d = Backquote then rune_backquote
      else rune_comma)"

subsection \<open>Option validation and defaults\<close>

text \<open>
  \<^verbatim>\<open>func (j *Job) formatOptions(options *Options) error\<close> mutates the options
  through the pointer and returns an error; the model returns the options as they stand
  at the return together with the error (\<open>None\<close> is Go's nil).
\<close>

text \<open>
  Go's \<^verbatim>\<open>error\<close> values, as far as the modelled code produces them:
  \<^verbatim>\<open>errors.New(msg)\<close> of the repository's own code, the errors of
  \<^verbatim>\<open>encoding/csv\<close> and \<^verbatim>\<open>strconv\<close>, \<^verbatim>\<open>io.EOF\<close>, and the errors of the
  collaborators taken as parameters (transport, URL parsing, JSON decoding,
  \<^verbatim>\<open>sfdc.HandleError\<close>, the file system), which carry their text.
\<close>

datatype csv_err = ErrBareQuote | ErrQuote | ErrFieldCount

datatype error =
  ErrorsNew string
  | EOF
  | ParseError csv_err
  | ErrInvalidDelim
  | NumError string string
  | External string

definition formatOptions :: "Options \<Rightarrow> Options \<times> error option" where
  "formatOptions options =
     (if Operation options = [] then
        (options, Some (ErrorsNew ''bulk job: operation is required''))
      else if Operation options = Upsert \<and> ExternalIDFieldName options = [] then
        (options,
         Some (ErrorsNew ''bulk job: external id field name is required for upsert operation''))
      else if Object options = [] then
        (options, Some (ErrorsNew ''bulk job: object is required''))
      else
        (let o1 = (if LineEnding options = [] then options\<lparr>LineEnding := Linefeed\<rparr>
                   else options);
             o2 = (if ContentType o1 = [] then o1\<lparr>ContentType := CSV\<rparr> else o1);
             o3 = (if ColumnDelimiter o2 = [] then o2\<lparr>ColumnDelimiter := Comma\<rparr> else o2)
         in (o3, None)))"

section \<open>Bulk API 2.0 query job: data and option defaults\<close>

type_synonym QueryOperation = string

definition Query :: QueryOperation where "Query = ''query''"
definition QueryAll :: QueryOperation where "QueryAll = ''queryAll''"

record QueryOptions =
  q_ColumnDelimiter :: ColumnDelimiter
  q_ContentType :: ContentType
  q_LineEnding :: LineEnding
  q_Query :: string
  q_Operation :: QueryOperation

text \<open>\<^verbatim>\<open>QueryResponse\<close>, without its float32 \<^verbatim>\<open>APIVersion\<close>.\<close>

record QueryResponse =
  qr_ColumnDelimiter :: ColumnDelimiter
  qr_ConcurrencyMode :: string
  qr_ContentType :: string
  qr_CreatedByID :: string
  qr_CreatedDate :: string
  qr_ID :: string
  qr_JobType :: string
  qr_LineEnding :: LineEnding
  qr_Object :: string
  qr_Operation :: QueryOperation
  qr_State :: State
  qr_SystemModstamp :: string

record QueryJob =
  QueryResponse :: QueryResponse

text \<open>\<^verbatim>\<open>func (j *QueryJob) formatOptions(options *QueryOptions) error\<close>.\<close>

definition query_formatOptions :: "QueryOptions \<Rightarrow> QueryOptions \<times> error option" where
  "query_formatOptions options =
     (if q_Query options = [] then
        (options, Some (ErrorsNew ''bulk job: query is required''))
      else
        (let o1 = (if q_LineEnding options = [] then options\<lparr>q_LineEnding := Linefeed\<rparr>
                   else options);
             o2 = (if q_ContentType o1 = [] then o1\<lparr>q_ContentType := CSV\<rparr> else o1);
             o3 = (if q_ColumnDelimiter o2 = [] then o2\<lparr>q_ColumnDelimiter := Comma\<rparr>
                   else o2);
             o4 = (if q_Operation o3 = [] then o3\<lparr>q_Operation := Query\<rparr> else o3)
         in (o4, None)))"

text \<open>\<^verbatim>\<open>func (j *QueryJob) delimiter() rune\<close>.\<close>

definition query_delimiter :: "QueryJob \<Rightarrow> char" where
  "query_delimiter j =
     (let d = qr_ColumnDelimiter (QueryResponse j) in
      if d = Tab then rune_tab
      else if d = SemiColon then rune_semicolon
      else if d = Pipe then rune_pipe
      else if d = Caret then rune_caret
      else if d = Backquote then rune_backquote
      else rune_comma)"

section \<open>Credential providers\<close>

record PasswordCredentials =
  pc_URL :: string
  pc_Username :: string
  pc_Password :: string
  pc_ClientID :: string
  pc_ClientSecret :: string

record RefreshTokenCredentials =
  rc_URL :: string
  rc_RefreshToken :: string
  rc_ClientID :: string
  rc_ClientSecret :: string

text \<open>
  \<^verbatim>\<open>Credentials{provider: ...}\<close>: the provider is one of the two strategies, each
  holding the credentials it was built from.
\<close>

datatype Credentials =
  passwordProvider PasswordCredentials
  | refreshTokenProvider RefreshTokenCredentials

definition validatePasswordCredentials :: "PasswordCredentials \<Rightarrow> error option" where
  "validatePasswordCredentials cred =
     (if pc_URL cred = [] then
        Some (ErrorsNew ''credentials: password credential's URL can not be empty'')
      else if pc_Username cred = [] then
        Some (ErrorsNew ''credentials: password credential's username can not be empty'')
      else if pc_Password cred = [] then
        Some (ErrorsNew ''credentials: password credential's password can not be empty'')
      else if pc_ClientID cred = [] then
        Some (ErrorsNew ''credentials: password credential's client ID can not be empty'')
      else if pc_ClientSecret cred = [] then
        Some (ErrorsNew ''credentials: password credential's client secret can not be empty'')
      else None)"

text \<open>
  \<^verbatim>\<open>NewPasswordCredentials\<close> returns \<^verbatim>\<open>(*Credentials, error)\<close>: the pointer is
  nil (\<open>None\<close>) exactly when it returns the validation error.
\<close>

definition NewPasswordCredentials ::
  "PasswordCredentials \<Rightarrow> Credentials option \<times> error option" where
  "NewPasswordCredentials creds =
     (case validatePasswordCredentials creds of
        Some err \<Rightarrow> (None, Some err)
      | None \<Rightarrow> (Some (passwordProvider creds), None))"

definition validateRefreshTokenCredentials :: "RefreshTokenCredentials \<Rightarrow> error option" where
  "validateRefreshTokenCredentials cred =
     (if rc_URL cred = [] then
        Some (ErrorsNew ''credentials: password credential's URL can not be empty'')
      else if rc_RefreshToken cred = [] then
        Some (ErrorsNew
          ''credentials: refresh token credential's refreshToken can not be empty'')
      else if rc_ClientID cred = [] then
        Some (ErrorsNew ''credentials: password credential's client ID can not be empty'')
      else if rc_ClientSecret cred = [] then
        Some (ErrorsNew ''credentials: password credential's client secret can not be empty'')
      else None)"

definition NewRefreshTokenCredentials ::
  "RefreshTokenCredentials \<Rightarrow> Credentials option \<times> error option" where
  "NewRefreshTokenCredentials creds =
     (case validateRefreshTokenCredentials creds of
        Some err \<Rightarrow> (None, Some err)
      | None \<Rightarrow> (Some (refreshTokenProvider creds), None))"

section \<open>The CSV reader\<close>

text \<open>
  The parsers read their input through Go's \<^verbatim>\<open>encoding/csv\<close>: \<^verbatim>\<open>csv.NewReader(stream)\<close>
  with \<^verbatim>\<open>reader.Comma\<close> set to the job's delimiter and every other setting at its
  default (no comment character, no lazy quotes, no trimming, \<^verbatim>\<open>FieldsPerRecord = 0\<close>).
  The standard library is not part of the repository; this section models that reader
  in this configuration over a finite stream of bytes that is read without I/O errors.
  A \<^verbatim>\<open>ParseError\<close> is kept by its kind, without its line and column.
\<close>

definition rune_quote :: char where "rune_quote = CHR 0x22"
definition rune_nl :: char where "rune_nl = CHR 0x0A"
definition rune_cr :: char where "rune_cr = CHR 0x0D"

text \<open>
  \<^verbatim>\<open>lengthNL(b)\<close>: 1 when the line ends in a newline, else 0.
\<close>

definition lengthNL :: "string \<Rightarrow> nat" where
  "lengthNL b = (if b \<noteq> [] \<and> last b = rune_nl then 1 else 0)"

text \<open>
  \<^verbatim>\<open>readLine\<close> returns the next line with its newline: the bytes up to and including
  the first newline, or all that is left when there is none. At the end of the input a
  trailing carriage return is dropped, and a line ending in carriage return and newline
  has the pair replaced by a newline (\<^verbatim>\<open>normalizeLine\<close>). The result is the line,
  whether the call returned \<^verbatim>\<open>io.EOF\<close> (nothing was left), and the input that remains.
\<close>

definition normalizeLine :: "string \<Rightarrow> string" where
  "normalizeLine line =
     (let n = length line in
      if n \<ge> 2 \<and> line ! (n - 2) = rune_cr \<and> line ! (n - 1) = rune_nl
      then take (n - 2) line @ [rune_nl] else line)"

definition readLine :: "string \<Rightarrow> string \<times> bool \<times> string" where
  "readLine s =
     (case dropWhile (\<lambda>c. c \<noteq> rune_nl) s of
        nl # rest \<Rightarrow> (normalizeLine (takeWhile (\<lambda>c. c \<noteq> rune_nl) s @ [nl]), False, rest)
      | [] \<Rightarrow>
          if s = [] then ([], True, [])
          else (normalizeLine (if last s = rune_cr then butlast s else s), False, []))"

lemma length_normalizeLine: "length (normalizeLine l) \<le> length l"
  by (auto simp: normalizeLine_def Let_def)

lemma readLine_length:
  assumes "readLine s = (line, eof, rest)"
  shows "length line + length rest \<le> length s"
proof (cases "dropWhile (\<lambda>c. c \<noteq> rune_nl) s")
  case Nil
  with assms show ?thesis
    using length_normalizeLine[of "butlast s"] length_normalizeLine[of s]
    by (auto simp: readLine_def split: if_splits)
next
  case (Cons nl rest')
  have "length (takeWhile (\<lambda>c. c \<noteq> rune_nl) s) + length (dropWhile (\<lambda>c. c \<noteq> rune_nl) s)
          = length s"
    by (metis length_append takeWhile_dropWhile_id)
  with Cons assms show ?thesis
    using length_normalizeLine[of "takeWhile (\<lambda>c. c \<noteq> rune_nl) s @ [nl]"]
    by (auto simp: readLine_def)
qed

lemma readLine_progress:
  assumes "readLine s = (line, False, rest)"
  shows "length rest < length s"
proof (cases "dropWhile (\<lambda>c. c \<noteq> rune_nl) s")
  case Nil
  with assms show ?thesis
    by (auto simp: readLine_def split: if_splits)
next
  case (Cons nl rest')
  have "length (dropWhile (\<lambda>c. c \<noteq> rune_nl) s) \<le> length s"
    by (rule length_dropWhile_le)
  with Cons assms show ?thesis
    by (auto simp: readLine_def)
qed

text \<open>
  The loop at the head of \<^verbatim>\<open>readRecord\<close>: read lines until one is not empty (a line
  that is only its newline is skipped) or the input ends.
\<close>

function nextLine :: "string \<Rightarrow> string \<times> bool \<times> string" where
  "nextLine s =
     (case readLine s of
        (line, eof, rest) \<Rightarrow>
          if \<not> eof \<and> length line = lengthNL line then nextLine rest
          else (line, eof, rest))"
  by pat_completeness auto
termination
  by (relation "measure length") (auto dest: readLine_progress[OF sym])

declare nextLine.simps [simp del]

lemma nextLine_progress:
  "nextLine s = (line, False, rest) \<Longrightarrow> length rest < length s"
proof (induction s rule: nextLine.induct)
  case (1 s)
  obtain l e r where rl: "readLine s = (l, e, r)"
    by (cases "readLine s") auto
  show ?case
  proof (cases "\<not> e \<and> length l = lengthNL l")
    case True
    with rl "1.prems" have "nextLine r = (line, False, rest)"
      by (subst (asm) nextLine.simps) simp
    with "1.IH"[OF rl[symmetric] refl] True have "length rest < length r"
      by simp
    moreover from rl True have "length r < length s"
      by (auto dest: readLine_progress)
    ultimately show ?thesis by simp
  next
    case False
    with rl "1.prems" have "readLine s = (line, False, rest)"
      by (subst (asm) nextLine.simps) auto
    then show ?thesis by (rule readLine_progress)
  qed
qed

lemma dropWhile_Cons_length:
  "dropWhile P xs = y # ys \<Longrightarrow> length ys < length xs"
  using length_dropWhile_le[of P xs] by simp

text \<open>
  The field loop of \<^verbatim>\<open>readRecord\<close> (\<^verbatim>\<open>parseField\<close> is its label in the Go source).
  A field that does not start with a quote runs to the next delimiter or to the end of
  the line and must not contain a quote. A field that starts with a quote is read by
  the inner loop, here \<^verbatim>\<open>parseQuoted\<close>: a doubled quote stands for a quote, a quote
  followed by the delimiter or by the end of the line ends the field, any other quote
  is an error, and a line that ends inside the quotes continues on the next line.
  \<open>dst\<close> holds the fields completed so far, \<open>buf\<close> the text of the quoted field so
  far, \<open>rest\<close> the input after the current line; the result carries the input that
  remains.
\<close>

function parseField ::
    "char \<Rightarrow> string \<Rightarrow> string \<Rightarrow> string list \<Rightarrow> (csv_err + string list) \<times> string"
  and parseQuoted ::
    "char \<Rightarrow> string \<Rightarrow> string \<Rightarrow> string \<Rightarrow> string list
       \<Rightarrow> (csv_err + string list) \<times> string"
where
  "parseField comma line rest dst =
     (if line = [] \<or> hd line \<noteq> rune_quote then
        (case dropWhile (\<lambda>c. c \<noteq> comma) line of
           c # line' \<Rightarrow>
             (let field = takeWhile (\<lambda>c. c \<noteq> comma) line in
              if rune_quote \<in> set field then (Inl ErrBareQuote, rest)
              else parseField comma line' rest (dst @ [field]))
         | [] \<Rightarrow>
             (let field = take (length line - lengthNL line) line in
              if rune_quote \<in> set field then (Inl ErrBareQuote, rest)
              else (Inr (dst @ [field]), rest)))
      else parseQuoted comma (tl line) rest [] dst)"
| "parseQuoted comma line rest buf dst =
     (case dropWhile (\<lambda>c. c \<noteq> rune_quote) line of
        q # line' \<Rightarrow>
          (let buf' = buf @ takeWhile (\<lambda>c. c \<noteq> rune_quote) line in
           if line' \<noteq> [] \<and> hd line' = rune_quote then
             parseQuoted comma (tl line') rest (buf' @ [rune_quote]) dst
           else if line' \<noteq> [] \<and> hd line' = comma then
             parseField comma (tl line') rest (dst @ [buf'])
           else if lengthNL line' = length line' then (Inr (dst @ [buf']), rest)
           else (Inl ErrQuote, rest))
      | [] \<Rightarrow>
          if line \<noteq> [] then
            (case readLine rest of
               (line', eof, rest') \<Rightarrow> parseQuoted comma line' rest' (buf @ line) dst)
          else (Inl ErrQuote, rest))"
  by pat_completeness auto
termination
proof (relation "measure (\<lambda>x. case x of
          Inl (comma, line, rest, dst) \<Rightarrow> length line + length rest
        | Inr (comma, line, rest, buf, dst) \<Rightarrow> length line + length rest)", goal_cases)
  case 1
  show ?case by simp
next
  case 2
  then show ?case by (auto dest: dropWhile_Cons_length)
next
  case (3 comma line)
  then show ?case by (cases line) auto
next
  case (4 comma line rest buf dst l er e r)
  from 4(3,4) have "length l + length r \<le> length rest"
    by (intro readLine_length[of rest l e r]) simp
  with 4(2) show ?case by (cases line) auto
next
  case (5 comma line rest buf dst q line')
  then show ?case by (cases line') (auto dest: dropWhile_Cons_length)
next
  case (6 comma line rest buf dst q line')
  then show ?case by (cases line') (auto dest: dropWhile_Cons_length)
qed

declare parseField.simps [simp del] parseQuoted.simps [simp del]

lemma parse_rest_length:
  "parseField comma line rest dst = (res, rest') \<Longrightarrow> length rest' \<le> length rest"
  "parseQuoted comma line rest buf dst = (res, rest') \<Longrightarrow> length rest' \<le> length rest"
proof (induction comma line rest dst and comma line rest buf dst
    arbitrary: res rest' and res rest' rule: parseField_parseQuoted.induct)
  case (1 comma line rest dst)
  from "1.prems" show ?case
    by (subst (asm) parseField.simps)
       (auto simp: Let_def split: if_splits list.splits intro: "1.IH")
next
  case (2 comma line rest buf dst)
  show ?case
  proof (cases "dropWhile (\<lambda>c. c \<noteq> rune_quote) line")
    case Nil
    show ?thesis
    proof (cases "line = []")
      case True
      have "parseQuoted comma line rest buf dst = (Inl ErrQuote, rest)"
        by (subst parseQuoted.simps) (simp add: True)
      with "2.prems" show ?thesis
        by simp
    next
      case False
      obtain l e r where rl: "readLine rest = (l, e, r)"
        by (cases "readLine rest") auto
      have "parseQuoted comma line rest buf dst = parseQuoted comma l r (buf @ line) dst"
        by (subst parseQuoted.simps) (simp add: Nil False rl)
      with "2.prems" have "parseQuoted comma l r (buf @ line) dst = (res, rest')"
        by simp
      with "2.IH"(1)[OF Nil False rl[symmetric] refl] have "length rest' \<le> length r"
        by simp
      moreover from rl have "length r \<le> length rest"
        by (auto dest: readLine_length)
      ultimately show ?thesis by simp
    qed
  next
    case (Cons q line')
    with "2.prems" show ?thesis
      by (subst (asm) parseQuoted.simps)
         (auto simp: Let_def split: if_splits intro: "2.IH"(2,3))
  qed
qed

text \<open>
  The reader's state: the input not yet read, \<^verbatim>\<open>Comma\<close> and \<^verbatim>\<open>FieldsPerRecord\<close>.
  \<^verbatim>\<open>Read\<close> checks the delimiter, skips empty lines, parses one record and checks
  its number of fields against \<^verbatim>\<open>FieldsPerRecord\<close>, which the first record sets. Go
  returns the record together with \<^verbatim>\<open>ErrFieldCount\<close>; the parsers test the error
  before they touch the record, so the model returns the error alone.
\<close>

record Reader =
  r_input :: string
  r_Comma :: char
  r_FieldsPerRecord :: nat

definition NewReader :: "string \<Rightarrow> Reader" where
  "NewReader stream = \<lparr>r_input = stream, r_Comma = rune_comma, r_FieldsPerRecord = 0\<rparr>"

definition validDelim :: "char \<Rightarrow> bool" where
  "validDelim r = (r \<noteq> CHR 0x00 \<and> r \<noteq> rune_quote \<and> r \<noteq> rune_cr \<and> r \<noteq> rune_nl)"

definition Read :: "Reader \<Rightarrow> (error + string list) \<times> Reader" where
  "Read r =
     (if \<not> validDelim (r_Comma r) then (Inl ErrInvalidDelim, r)
      else
        (case nextLine (r_input r) of
           (line, eof, rest) \<Rightarrow>
             if eof then (Inl EOF, r\<lparr>r_input := rest\<rparr>)
             else
               (case parseField (r_Comma r) line rest [] of
                  (Inl e, rest') \<Rightarrow> (Inl (ParseError e), r\<lparr>r_input := rest'\<rparr>)
                | (Inr dst, rest') \<Rightarrow>
                    if r_FieldsPerRecord r > 0 then
                      (if length dst \<noteq> r_FieldsPerRecord r
                       then (Inl (ParseError ErrFieldCount), r\<lparr>r_input := rest'\<rparr>)
                       else (Inr dst, r\<lparr>r_input := rest'\<rparr>))
                    else (Inr dst, r\<lparr>r_input := rest', r_FieldsPerRecord := length dst\<rparr>))))"

lemma Read_progress:
  assumes "Read r = (Inr row, r')"
  shows "length (r_input r') < length (r_input r)"
proof -
  obtain line eof rest where nl: "nextLine (r_input r) = (line, eof, rest)"
    by (cases "nextLine (r_input r)") auto
  obtain res rest' where pf: "parseField (r_Comma r) line rest [] = (res, rest')"
    by (cases "parseField (r_Comma r) line rest []") auto
  from assms nl have ne: "\<not> eof"
    by (auto simp: Read_def split: if_splits)
  with nl have "length rest < length (r_input r)"
    by (auto dest: nextLine_progress)
  moreover from pf have "length rest' \<le> length rest"
    by (rule parse_rest_length(1))
  moreover from assms nl pf ne have "r_input r' = rest'"
    by (auto simp: Read_def split: if_splits sum.splits)
  ultimately show ?thesis by simp
qed

text \<open>
  The results of calling \<^verbatim>\<open>reader.Read()\<close> again and again: the records in order,
  ending at the end of the input (\<^verbatim>\<open>io.EOF\<close>, the end of the list) or with the first
  error. The parsers below never read past an error.
\<close>

function reads :: "Reader \<Rightarrow> (error + string list) list" where
  "reads r =
     (case Read r of
        (Inl err, r') \<Rightarrow> if err = EOF then [] else [Inl err]
      | (Inr row, r') \<Rightarrow> Inr row # reads r')"
  by pat_completeness auto
termination
  by (relation "measure (\<lambda>r. length (r_input r))") (auto dest: Read_progress[OF sym])

declare reads.simps [simp del]

section \<open>Parsing the result sets of an ingest job\<close>

text \<open>
  Go's run-time panics as values: \<^verbatim>\<open>xs[i]\<close> with \<open>i\<close> outside \<open>0 \<le> i < len(xs)\<close>
  panics with the index and the length, \<^verbatim>\<open>xs[low:]\<close> with \<open>low > len(xs)\<close> panics
  with the bound and the length. A computation either panics or is done with a value.
\<close>

datatype panic =
  IndexOutOfRange int nat
  | SliceBoundsOutOfRange nat nat

datatype 'a exec = Panics panic | Done 'a

definition index :: "'a list \<Rightarrow> int \<Rightarrow> 'a exec" where
  "index xs i =
     (if 0 \<le> i \<and> i < int (length xs) then Done (xs ! nat i)
      else Panics (IndexOutOfRange i (length xs)))"

definition sliceFrom :: "'a list \<Rightarrow> nat \<Rightarrow> 'a list exec" where
  "sliceFrom xs low =
     (if low \<le> length xs then Done (drop low xs)
      else Panics (SliceBoundsOutOfRange low (length xs)))"

text \<open>
  \<^verbatim>\<open>strconv.ParseBool\<close>: the twelve literals it accepts; any other string is a
  syntax error carrying the function's name and the string.
\<close>

definition ParseBool :: "string \<Rightarrow> error + bool" where
  "ParseBool str =
     (if str \<in> set [''1'', ''t'', ''T'', ''TRUE'', ''true'', ''True''] then Inr True
      else if str \<in> set [''0'', ''f'', ''F'', ''FALSE'', ''false'', ''False''] then Inr False
      else Inl (NumError ''ParseBool'' str))"

text \<open>
  \<^verbatim>\<open>func (j *Job) headerPosition(column string, header []string) int\<close>: the index
  of the first column equal to \<^verbatim>\<open>column\<close>, or \<open>-1\<close>. The helper carries the loop
  index.
\<close>

fun headerPositionFrom :: "int \<Rightarrow> string \<Rightarrow> string list \<Rightarrow> int" where
  "headerPositionFrom idx column [] = -1"
| "headerPositionFrom idx column (col # header) =
     (if col = column then idx else headerPositionFrom (idx + 1) column header)"

definition headerPosition :: "string \<Rightarrow> string list \<Rightarrow> int" where
  "headerPosition column header = headerPositionFrom 0 column header"

text \<open>
  \<^verbatim>\<open>func (j *Job) record(fields, values []string) map[string]string\<close>
  (\<^verbatim>\<open>record\<close> is a keyword of Isabelle, hence the suffix; \<open>fields\<close> is a constant of
  every record type, hence \<open>fields'\<close>). The loop assigns \<^verbatim>\<open>record[field] = values[idx]\<close>
  for each field in order, so a later duplicate name overwrites an earlier one, and
  \<^verbatim>\<open>values[idx]\<close> panics when the row is shorter than the header.
\<close>

fun recordFrom ::
  "nat \<Rightarrow> string list \<Rightarrow> string list \<Rightarrow> (string \<rightharpoonup> string) \<Rightarrow> (string \<rightharpoonup> string) exec"
where
  "recordFrom idx [] values record = Done record"
| "recordFrom idx (field # fields') values record =
     (if idx < length values then
        recordFrom (Suc idx) fields' values (record(field \<mapsto> values ! idx))
      else Panics (IndexOutOfRange (int idx) (length values)))"

definition record_go :: "string list \<Rightarrow> string list \<Rightarrow> (string \<rightharpoonup> string) exec" where
  "record_go fields' values = recordFrom 0 fields' values Map.empty"

text \<open>
  The record types, each embedding the previous one as in the source.
\<close>

record UnprocessedRecord =
  Fields :: "string \<rightharpoonup> string"

record JobRecord = UnprocessedRecord +
  ID :: string

record SuccessfulRecord = JobRecord +
  Created :: bool

record FailedRecord = JobRecord +
  Error :: string

text \<open>
  The body of the loop of \<^verbatim>\<open>ParseSuccessfulResults\<close> for one data row, in the
  source's order of evaluation: the \<^verbatim>\<open>sf__Created\<close> value is looked up and parsed
  (an error ends the parse), then the \<^verbatim>\<open>sf__Id\<close> value is looked up, then
  \<^verbatim>\<open>fields[2:]\<close> and \<^verbatim>\<open>values[2:]\<close> are sliced and turned into the field map.
  \<open>Inl err\<close> stands for \<^verbatim>\<open>return nil, err\<close>, \<open>Inr record\<close> for the record that is
  appended. \<^verbatim>\<open>failedRecord\<close> is the body of the loop of \<^verbatim>\<open>ParseFailedResults\<close>.
\<close>

definition successfulRecord :: "string list \<Rightarrow> string list \<Rightarrow> (error + SuccessfulRecord) exec" where
  "successfulRecord fields' values =
     (case index values (headerPosition sfCreated fields') of
        Panics p \<Rightarrow> Panics p
      | Done s \<Rightarrow>
          (case ParseBool s of
             Inl err \<Rightarrow> Done (Inl err)
           | Inr created \<Rightarrow>
               (case index values (headerPosition sfID fields') of
                  Panics p \<Rightarrow> Panics p
                | Done sfid \<Rightarrow>
                    (case sliceFrom fields' 2 of
                       Panics p \<Rightarrow> Panics p
                     | Done fs \<Rightarrow>
                         (case sliceFrom values 2 of
                            Panics p \<Rightarrow> Panics p
                          | Done vs \<Rightarrow>
                              (case record_go fs vs of
                                 Panics p \<Rightarrow> Panics p
                               | Done m \<Rightarrow>
                                   Done (Inr \<lparr>Fields = m, ID = sfid, Created = created\<rparr>)))))))"

definition failedRecord :: "string list \<Rightarrow> string list \<Rightarrow> FailedRecord exec" where
  "failedRecord fields' values =
     (case index values (headerPosition sfError fields') of
        Panics p \<Rightarrow> Panics p
      | Done e \<Rightarrow>
          (case index values (headerPosition sfID fields') of
             Panics p \<Rightarrow> Panics p
           | Done sfid \<Rightarrow>
               (case sliceFrom fields' 2 of
                  Panics p \<Rightarrow> Panics p
                | Done fs \<Rightarrow>
                    (case sliceFrom values 2 of
                       Panics p \<Rightarrow> Panics p
                     | Done vs \<Rightarrow>
                         (case record_go fs vs of
                            Panics p \<Rightarrow> Panics p
                          | Done m \<Rightarrow> Done \<lparr>Fields = m, ID = sfid, Error = e\<rparr>)))))"

text \<open>
  The \<^verbatim>\<open>for\<close> loop of each parser: \<open>records\<close> is the slice built so far and the
  list holds the results of the reads still to come. \<^verbatim>\<open>io.EOF\<close> leaves the loop and
  returns the records with a nil error; any other error returns \<^verbatim>\<open>nil, err\<close>.
\<close>

fun successfulLoop ::
  "string list \<Rightarrow> SuccessfulRecord list \<Rightarrow> (error + string list) list
     \<Rightarrow> (SuccessfulRecord list \<times> error option) exec"
where
  "successfulLoop fields' records [] = Done (records, None)"
| "successfulLoop fields' records (Inl err # rs) =
     (if err = EOF then Done (records, None) else Done ([], Some err))"
| "successfulLoop fields' records (Inr values # rs) =
     (case successfulRecord fields' values of
        Panics p \<Rightarrow> Panics p
      | Done (Inl err) \<Rightarrow> Done ([], Some err)
      | Done (Inr record) \<Rightarrow> successfulLoop fields' (records @ [record]) rs)"

fun failedLoop ::
  "string list \<Rightarrow> FailedRecord list \<Rightarrow> (error + string list) list
     \<Rightarrow> (FailedRecord list \<times> error option) exec"
where
  "failedLoop fields' records [] = Done (records, None)"
| "failedLoop fields' records (Inl err # rs) =
     (if err = EOF then Done (records, None) else Done ([], Some err))"
| "failedLoop fields' records (Inr values # rs) =
     (case failedRecord fields' values of
        Panics p \<Rightarrow> Panics p
      | Done record \<Rightarrow> failedLoop fields' (records @ [record]) rs)"

text \<open>
  Each parser from its first \<^verbatim>\<open>Read\<close> on, as a function of the results of the
  reads: any error of the header read, \<^verbatim>\<open>io.EOF\<close> included, is returned with no
  records. Whatever makes a \<^verbatim>\<open>Read\<close> fail (a malformed row, a wrong field count, an
  I/O error of the stream) reaches the parser as the error of that read.
\<close>

definition successfulResults ::
  "(error + string list) list \<Rightarrow> (SuccessfulRecord list \<times> error option) exec" where
  "successfulResults rs =
     (case rs of
        [] \<Rightarrow> Done ([], Some EOF)
      | Inl err # rs' \<Rightarrow> Done ([], Some err)
      | Inr fields' # rs' \<Rightarrow> successfulLoop fields' [] rs')"

definition failedResults ::
  "(error + string list) list \<Rightarrow> (FailedRecord list \<times> error option) exec" where
  "failedResults rs =
     (case rs of
        [] \<Rightarrow> Done ([], Some EOF)
      | Inl err # rs' \<Rightarrow> Done ([], Some err)
      | Inr fields' # rs' \<Rightarrow> failedLoop fields' [] rs')"

text \<open>
  \<^verbatim>\<open>ParseSuccessfulResults\<close> and \<^verbatim>\<open>ParseFailedResults\<close> on a stream of bytes:
  \<^verbatim>\<open>jobReads\<close> is what the reader built by \<^verbatim>\<open>csv.NewReader(stream)\<close> with
  \<^verbatim>\<open>reader.Comma = j.delimiter()\<close> delivers.
\<close>

definition jobReads :: "Job \<Rightarrow> string \<Rightarrow> (error + string list) list" where
  "jobReads j stream = reads ((NewReader stream)\<lparr>r_Comma := delimiter j\<rparr>)"

definition ParseSuccessfulResults ::
  "Job \<Rightarrow> string \<Rightarrow> (SuccessfulRecord list \<times> error option) exec" where
  "ParseSuccessfulResults j stream = successfulResults (jobReads j stream)"

definition ParseFailedResults ::
  "Job \<Rightarrow> string \<Rightarrow> (FailedRecord list \<times> error option) exec" where
  "ParseFailedResults j stream = failedResults (jobReads j stream)"

section \<open>Calls to the service\<close>

text \<open>
  The session (\<^verbatim>\<open>session.ServiceFormatter\<close>), the HTTP client, the URL parser, the
  JSON decoder, \<^verbatim>\<open>sfdc.HandleError\<close> and the file system are collaborators outside
  the sources; the functions that call them take their behaviour as the parameter
  \<open>env\<close>. A request records the method, the URL it was built from, the query values
  that end up in \<^verbatim>\<open>URL.RawQuery\<close>, the headers in the order they were added and the
  body; a request body is the value that was marshalled. A response's header maps a
  canonical key to its values.
\<close>

datatype payload = NoBody | OptionsJSON Options | QueryOptionsJSON QueryOptions

record Request =
  Method :: string
  URL :: string
  URL_Query :: "(string \<times> string) list"
  Header :: "(string \<times> string) list"
  Body :: payload

record Response =
  StatusCode :: int
  resp_Header :: "string \<Rightarrow> string list"
  resp_Body :: string

record Env =
  ServiceURL :: string
  AuthorizationHeader :: "Request \<Rightarrow> Request"
  Do :: "Request \<Rightarrow> error + Response"
  url_Parse :: "string \<Rightarrow> error + (string \<times> string) list"
  HandleError :: "Response \<Rightarrow> error"
  Decode_WriteResponse :: "string \<Rightarrow> error + WriteResponse"
  os_Create :: "string \<Rightarrow> error option"
  io_Copy :: "string \<Rightarrow> (nat \<times> error) option"

text \<open>
  Modelled from the spec: the constant \<^verbatim>\<open>bulk2Endpoint\<close> of the ingest package
  (\<^verbatim>\<open>bulk\<close>) is declared in a file that is not among the sources. Section 6 of the
  specification gives the path \<^verbatim>\<open>{service}/jobs/ingest\<close>.
\<close>

definition bulk2Endpoint :: string where
  "bulk2Endpoint = ''/jobs/ingest''"

text \<open>
  \<^verbatim>\<open>const bulk2Endpoint = "/jobs/query"\<close> of the query package
  (\<^verbatim>\<open>bulkquery/resource.go\<close>); the prefix keeps the two constants apart.
\<close>

definition query_bulk2Endpoint :: string where
  "query_bulk2Endpoint = ''/jobs/query''"

text \<open>
  \<^verbatim>\<open>http.NewRequest\<close> fails when the URL does not parse; \<^verbatim>\<open>Header.Add\<close> appends a
  header, \<^verbatim>\<open>Header.Get\<close> returns the first value of a key or the empty string.
\<close>

definition NewRequest :: "Env \<Rightarrow> string \<Rightarrow> string \<Rightarrow> payload \<Rightarrow> error + Request" where
  "NewRequest env method url body =
     (case url_Parse env url of
        Inl err \<Rightarrow> Inl err
      | Inr q \<Rightarrow> Inr \<lparr>Method = method, URL = url, URL_Query = q, Header = [], Body = body\<rparr>)"

definition Header_Add :: "string \<Rightarrow> string \<Rightarrow> Request \<Rightarrow> Request" where
  "Header_Add key v request = request\<lparr>Header := Header request @ [(key, v)]\<rparr>"

definition Header_Get :: "(string \<Rightarrow> string list) \<Rightarrow> string \<Rightarrow> string" where
  "Header_Get h key = (case h key of [] \<Rightarrow> [] | v # vs \<Rightarrow> v)"

text \<open>
  \<^verbatim>\<open>WriteResponse{}\<close>, the zero value, then \<^verbatim>\<open>Job.response\<close>,
  \<^verbatim>\<open>Job.createCallout\<close> and \<^verbatim>\<open>Job.create\<close>. Each returns its Go results together
  with the requests it handed to the client. \<^verbatim>\<open>json.Marshal\<close> cannot fail on a struct
  of strings, so that branch is left out. \<^verbatim>\<open>create\<close> assigns the callout's result to
  \<^verbatim>\<open>j.WriteResponse\<close> before it tests the error.
\<close>

definition zero_WriteResponse :: WriteResponse where
  "zero_WriteResponse =
     \<lparr>wr_ColumnDelimiter = [], wr_ConcurrencyMode = [], wr_ContentType = [],
      wr_ContentURL = [], wr_CreatedByID = [], wr_CreatedDate = [],
      wr_ExternalIDFieldName = [], wr_ID = [], wr_JobType = [], wr_LineEnding = [],
      wr_Object = [], wr_Operation = [], wr_State = [], wr_SystemModstamp = []\<rparr>"

definition response :: "Env \<Rightarrow> Request \<Rightarrow> (WriteResponse \<times> error option) \<times> Request list" where
  "response env request =
     (case Do env request of
        Inl err \<Rightarrow> ((zero_WriteResponse, Some err), [request])
      | Inr resp \<Rightarrow>
          if StatusCode resp \<noteq> 200 then
            ((zero_WriteResponse, Some (HandleError env resp)), [request])
          else
            (case Decode_WriteResponse env (resp_Body resp) of
               Inl err \<Rightarrow> ((zero_WriteResponse, Some err), [request])
             | Inr v \<Rightarrow> ((v, None), [request])))"

definition createCallout ::
  "Env \<Rightarrow> Options \<Rightarrow> (WriteResponse \<times> error option) \<times> Request list" where
  "createCallout env options =
     (let url = ServiceURL env @ bulk2Endpoint in
      case NewRequest env ''POST'' url (OptionsJSON options) of
        Inl err \<Rightarrow> ((zero_WriteResponse, Some err), [])
      | Inr request \<Rightarrow>
          response env
            (AuthorizationHeader env
              (Header_Add ''Content-Type'' ''application/json''
                (Header_Add ''Accept'' ''application/json'' request))))"

definition create :: "Env \<Rightarrow> Job \<Rightarrow> Options \<Rightarrow> (Job \<times> error option) \<times> Request list" where
  "create env j options =
     (case formatOptions options of
        (options', Some err) \<Rightarrow> ((j, Some err), [])
      | (options', None) \<Rightarrow>
          (case createCallout env options' of
             ((wr, err), sent) \<Rightarrow> ((j\<lparr>WriteResponse := wr\<rparr>, err), sent)))"

text \<open>
  \<^verbatim>\<open>strconv.Itoa\<close>: the decimal digits, with a minus sign for a negative number.
\<close>

function digits :: "nat \<Rightarrow> string" where
  "digits n =
     (if n < 10 then [char_of (48 + n)]
      else digits (n div 10) @ [char_of (48 + n mod 10)])"
  by pat_completeness auto
termination
  by (relation "measure id") auto

declare digits.simps [simp del]

definition Itoa :: "int \<Rightarrow> string" where
  "Itoa i = (if i < 0 then CHR ''-'' # digits (nat (- i)) else digits (nat i))"

text \<open>
  \<^verbatim>\<open>func (j *QueryJob) ExportResults(filepath string, maxRecords int, locator string) (string, error)\<close>.
  The file system is a map from paths to contents: \<^verbatim>\<open>os.Create\<close> fails or makes the
  file empty, \<^verbatim>\<open>io.Copy\<close> writes the whole body or fails after some bytes. The result
  is the returned pair, the file system afterwards and the requests sent.
\<close>

definition ExportResults ::
  "Env \<Rightarrow> QueryJob \<Rightarrow> (string \<rightharpoonup> string) \<Rightarrow> string \<Rightarrow> int \<Rightarrow> string
     \<Rightarrow> (string \<times> error option) \<times> (string \<rightharpoonup> string) \<times> Request list" where
  "ExportResults env j files filepath maxRecords locator =
     (let url = ServiceURL env @ query_bulk2Endpoint @ ''/'' @ qr_ID (QueryResponse j)
                  @ ''/results'' in
      case NewRequest env ''GET'' url NoBody of
        Inl err \<Rightarrow> (([], Some err), files, [])
      | Inr request0 \<Rightarrow>
          (let q0 = URL_Query request0;
               q1 = (if locator \<noteq> [] then q0 @ [(''locator'', locator)] else q0);
               q2 = (if maxRecords > 0 then q1 @ [(''maxRecords'', Itoa maxRecords)] else q1);
               request =
                 AuthorizationHeader env
                   (Header_Add ''Content-Type'' ''application/json''
                     (Header_Add ''Accept'' ''text/csv'' (request0\<lparr>URL_Query := q2\<rparr>)))
           in case Do env request of
                Inl err \<Rightarrow> (([], Some err), files, [request])
              | Inr resp \<Rightarrow>
                  if StatusCode resp \<noteq> 200 then
                    (([], Some (HandleError env resp)), files, [request])
                  else
                    (case os_Create env filepath of
                       Some err \<Rightarrow> (([], Some err), files, [request])
                     | None \<Rightarrow>
                         (case io_Copy env (resp_Body resp) of
                            Some (n, err) \<Rightarrow>
                              (([], Some err),
                               files(filepath \<mapsto> take n (resp_Body resp)), [request])
                          | None \<Rightarrow>
                              ((Header_Get (resp_Header resp) ''Sforce-Locator'', None),
                               files(filepath \<mapsto> resp_Body resp), [request])))))"

section \<open>Concrete values for the examples\<close>

text \<open>
  \<^verbatim>\<open>QueryResponse{}\<close>, and a session and file system whose calls behave in one fixed
  way; the examples below override the fields they exercise.
\<close>

definition zero_QueryResponse :: QueryResponse where
  "zero_QueryResponse =
     \<lparr>qr_ColumnDelimiter = [], qr_ConcurrencyMode = [], qr_ContentType = [],
      qr_CreatedByID = [], qr_CreatedDate = [], qr_ID = [], qr_JobType = [],
      qr_LineEnding = [], qr_Object = [], qr_Operation = [], qr_State = [],
      qr_SystemModstamp = []\<rparr>"

definition zero_Env :: Env where
  "zero_Env =
     \<lparr>ServiceURL = ''https://example.my.salesforce.com/services/data/v52.0'',
      AuthorizationHeader = Header_Add ''Authorization'' ''Bearer token'',
      Do = (\<lambda>request. Inl (External ''connection refused'')),
      url_Parse = (\<lambda>url. Inr []),
      HandleError = (\<lambda>resp. External (resp_Body resp)),
      Decode_WriteResponse = (\<lambda>body. Inl (External ''unexpected end of JSON input'')),
      os_Create = (\<lambda>path. None),
      io_Copy = (\<lambda>body. None)\<rparr>"

text \<open>
  The required fields of each grant as the specification lists them, in the order the
  validation checks them, each with the name the error is expected to carry.
\<close>

definition password_required :: "PasswordCredentials \<Rightarrow> (string \<times> string) list" where
  "password_required creds =
     [(pc_URL creds, ''URL''), (pc_Username creds, ''username''),
      (pc_Password creds, ''password''), (pc_ClientID creds, ''client ID''),
      (pc_ClientSecret creds, ''client secret'')]"

definition refresh_required :: "RefreshTokenCredentials \<Rightarrow> (string \<times> string) list" where
  "refresh_required creds =
     [(rc_URL creds, ''URL''), (rc_RefreshToken creds, ''refreshToken''),
      (rc_ClientID creds, ''client ID''), (rc_ClientSecret creds, ''client secret'')]"

text \<open>
  A line of CSV as the statements below write it: the fields joined by the delimiter
  and ended by a newline. A field is plain when it holds neither the delimiter nor a
  quote, newline or carriage return, so that it needs no quoting.
\<close>

fun csvLine :: "char \<Rightarrow> string list \<Rightarrow> string" where
  "csvLine comma [] = [rune_nl]"
| "csvLine comma [f] = f @ [rune_nl]"
| "csvLine comma (f # g # fs) = f @ comma # csvLine comma (g # fs)"

definition plainField :: "char \<Rightarrow> string \<Rightarrow> bool" where
  "plainField comma f =
     (comma \<notin> set f \<and> rune_quote \<notin> set f \<and> rune_nl \<notin> set f \<and> rune_cr \<notin> set f)"

text \<open>
  An ingest job whose delimiter is \<^verbatim>\<open>COMMA\<close> and one whose delimiter is
  \<^verbatim>\<open>TAB\<close>, a query job with an ID, a response
  with a next-page locator, a session that always receives it, the same session on a
  file system that refuses to create the file, and the request \<^verbatim>\<open>ExportResults\<close>
  sends to them.
\<close>

definition comma_job :: Job where
  "comma_job = \<lparr>WriteResponse = zero_WriteResponse\<lparr>wr_ColumnDelimiter := ''COMMA''\<rparr>\<rparr>"

definition tab_job :: Job where
  "tab_job = \<lparr>WriteResponse = zero_WriteResponse\<lparr>wr_ColumnDelimiter := ''TAB''\<rparr>\<rparr>"

definition page_Response :: Response where
  "page_Response =
     \<lparr>StatusCode = 200,
      resp_Header = (\<lambda>key. if key = ''Sforce-Locator'' then [''MTAwMDA''] else []),
      resp_Body = ''Id\<newline>001\<newline>''\<rparr>"

definition page_Env :: Env where
  "page_Env = zero_Env\<lparr>Do := (\<lambda>request. Inr page_Response)\<rparr>"

definition no_file_Env :: Env where
  "no_file_Env =
     page_Env\<lparr>os_Create := (\<lambda>path. Some (External ''open out.csv: permission denied''))\<rparr>"

definition query_job_750 :: QueryJob where
  "query_job_750 = \<lparr>QueryResponse = zero_QueryResponse\<lparr>qr_ID := ''750''\<rparr>\<rparr>"

definition page_request :: "(string \<times> string) list \<Rightarrow> Request" where
  "page_request q =
     \<lparr>Method = ''GET'',
      URL = ''https://example.my.salesforce.com/services/data/v52.0/jobs/query/750/results'',
      URL_Query = q,
      Header = [(''Accept'', ''text/csv''), (''Content-Type'', ''application/json''),
                (''Authorization'', ''Bearer token'')],
      Body = NoBody\<rparr>"

section \<open>Delimiter resolution\<close>

lemmas delimiter_names =
  Tab_def SemiColon_def Pipe_def Caret_def Backquote_def Comma_def
lemmas delimiter_runes =
  rune_tab_def rune_semicolon_def rune_pipe_def rune_caret_def rune_backquote_def rune_comma_def

text \<open>
  Claim C4. The delimiter resolution of the ingest job and of the query job maps
  \<^verbatim>\<open>BACKQUOTE\<close> to the backquote (0x60), \<^verbatim>\<open>CARET\<close> to \<open>^\<close>, \<^verbatim>\<open>COMMA\<close> to the
  comma, \<^verbatim>\<open>PIPE\<close> to \<open>|\<close>, \<^verbatim>\<open>SEMICOLON\<close> to \<open>;\<close>, \<^verbatim>\<open>TAB\<close> to the tab (0x09),
  and every other value of the job's column delimiter, the empty string and any
  unrecognized name included, to the comma.
\<close>

theorem delimiter_resolution:
  fixes j :: Job and q :: QueryJob
  shows
  "(wr_ColumnDelimiter (WriteResponse j) = ''BACKQUOTE'' \<longrightarrow> delimiter j = CHR 0x60) \<and>
   (wr_ColumnDelimiter (WriteResponse j) = ''CARET'' \<longrightarrow> delimiter j = CHR ''^'') \<and>
   (wr_ColumnDelimiter (WriteResponse j) = ''COMMA'' \<longrightarrow> delimiter j = CHR '','') \<and>
   (wr_ColumnDelimiter (WriteResponse j) = ''PIPE'' \<longrightarrow> delimiter j = CHR ''|'') \<and>
   (wr_ColumnDelimiter (WriteResponse j) = ''SEMICOLON'' \<longrightarrow> delimiter j = CHR '';'') \<and>
   (wr_ColumnDelimiter (WriteResponse j) = ''TAB'' \<longrightarrow> delimiter j = CHR 0x09) \<and>
   (wr_ColumnDelimiter (WriteResponse j)
      \<notin> {''BACKQUOTE'', ''CARET'', ''COMMA'', ''PIPE'', ''SEMICOLON'', ''TAB''}
    \<longrightarrow> delimiter j = CHR '','') \<and>
   (qr_ColumnDelimiter (QueryResponse q) = ''BACKQUOTE'' \<longrightarrow> query_delimiter q = CHR 0x60) \<and>
   (qr_ColumnDelimiter (QueryResponse q) = ''CARET'' \<longrightarrow> query_delimiter q = CHR ''^'') \<and>
   (qr_ColumnDelimiter (QueryResponse q) = ''COMMA'' \<longrightarrow> query_delimiter q = CHR '','') \<and>
   (qr_ColumnDelimiter (QueryResponse q) = ''PIPE'' \<longrightarrow> query_delimiter q = CHR ''|'') \<and>
   (qr_ColumnDelimiter (QueryResponse q) = ''SEMICOLON'' \<longrightarrow> query_delimiter q = CHR '';'') \<and>
   (qr_ColumnDelimiter (QueryResponse q) = ''TAB'' \<longrightarrow> query_delimiter q = CHR 0x09) \<and>
   (qr_ColumnDelimiter (QueryResponse q)
      \<notin> {''BACKQUOTE'', ''CARET'', ''COMMA'', ''PIPE'', ''SEMICOLON'', ''TAB''}
    \<longrightarrow> query_delimiter q = CHR '','')"
  by (simp add: delimiter_def query_delimiter_def delimiter_names delimiter_runes)

theorem delimiter_resolution_witness:
  "delimiter \<lparr>WriteResponse = zero_WriteResponse\<lparr>wr_ColumnDelimiter := ''BACKQUOTE''\<rparr>\<rparr> = CHR 0x60 \<and>
   delimiter \<lparr>WriteResponse = zero_WriteResponse\<lparr>wr_ColumnDelimiter := ''CARET''\<rparr>\<rparr> = CHR ''^'' \<and>
   delimiter \<lparr>WriteResponse = zero_WriteResponse\<lparr>wr_ColumnDelimiter := ''COMMA''\<rparr>\<rparr> = CHR '','' \<and>
   delimiter \<lparr>WriteResponse = zero_WriteResponse\<lparr>wr_ColumnDelimiter := ''PIPE''\<rparr>\<rparr> = CHR ''|'' \<and>
   delimiter \<lparr>WriteResponse = zero_WriteResponse\<lparr>wr_ColumnDelimiter := ''SEMICOLON''\<rparr>\<rparr> = CHR '';'' \<and>
   delimiter \<lparr>WriteResponse = zero_WriteResponse\<lparr>wr_ColumnDelimiter := ''TAB''\<rparr>\<rparr> = CHR 0x09 \<and>
   delimiter \<lparr>WriteResponse = zero_WriteResponse\<rparr> = CHR '','' \<and>
   delimiter \<lparr>WriteResponse = zero_WriteResponse\<lparr>wr_ColumnDelimiter := ''tab''\<rparr>\<rparr> = CHR '','' \<and>
   query_delimiter \<lparr>QueryResponse = zero_QueryResponse\<lparr>qr_ColumnDelimiter := ''PIPE''\<rparr>\<rparr> = CHR ''|'' \<and>
   query_delimiter \<lparr>QueryResponse = zero_QueryResponse\<rparr> = CHR '',''"
  using
    delimiter_resolution [of "\<lparr>WriteResponse = zero_WriteResponse\<lparr>wr_ColumnDelimiter := ''BACKQUOTE''\<rparr>\<rparr>"
      "\<lparr>QueryResponse = zero_QueryResponse\<lparr>qr_ColumnDelimiter := ''PIPE''\<rparr>\<rparr>"]
    delimiter_resolution [of "\<lparr>WriteResponse = zero_WriteResponse\<lparr>wr_ColumnDelimiter := ''CARET''\<rparr>\<rparr>"
      "\<lparr>QueryResponse = zero_QueryResponse\<rparr>"]
    delimiter_resolution [of "\<lparr>WriteResponse = zero_WriteResponse\<lparr>wr_ColumnDelimiter := ''COMMA''\<rparr>\<rparr>"]
    delimiter_resolution [of "\<lparr>WriteResponse = zero_WriteResponse\<lparr>wr_ColumnDelimiter := ''PIPE''\<rparr>\<rparr>"]
    delimiter_resolution [of "\<lparr>WriteResponse = zero_WriteResponse\<lparr>wr_ColumnDelimiter := ''SEMICOLON''\<rparr>\<rparr>"]
    delimiter_resolution [of "\<lparr>WriteResponse = zero_WriteResponse\<lparr>wr_ColumnDelimiter := ''TAB''\<rparr>\<rparr>"]
    delimiter_resolution [of "\<lparr>WriteResponse = zero_WriteResponse\<rparr>"]
    delimiter_resolution [of "\<lparr>WriteResponse = zero_WriteResponse\<lparr>wr_ColumnDelimiter := ''tab''\<rparr>\<rparr>"]
  by (simp add: zero_WriteResponse_def zero_QueryResponse_def)

section \<open>Validation and defaults of the job options\<close>

text \<open>
  Claim C5. \<^verbatim>\<open>create\<close> of the ingest job fails validation exactly when the operation
  is empty, the object is empty, or the operation is \<^verbatim>\<open>upsert\<close> with an empty external
  ID field name. In each of these cases it returns the validation error, leaves the job
  as it was and sends no request. For an operation other than \<^verbatim>\<open>upsert\<close> an empty
  external ID field name passes validation.
\<close>

theorem create_validation:
  "(snd (formatOptions options) \<noteq> None) =
     (Operation options = [] \<or> Object options = [] \<or>
      (Operation options = ''upsert'' \<and> ExternalIDFieldName options = [])) \<and>
   (Operation options = [] \<longrightarrow>
      create env j options = ((j, Some (ErrorsNew ''bulk job: operation is required'')), [])) \<and>
   (Operation options = ''upsert'' \<and> ExternalIDFieldName options = [] \<longrightarrow>
      create env j options =
        ((j, Some (ErrorsNew
            ''bulk job: external id field name is required for upsert operation'')), [])) \<and>
   (Operation options \<noteq> [] \<and> Object options = [] \<and>
    \<not> (Operation options = ''upsert'' \<and> ExternalIDFieldName options = []) \<longrightarrow>
      create env j options = ((j, Some (ErrorsNew ''bulk job: object is required'')), [])) \<and>
   (Operation options \<noteq> [] \<and> Operation options \<noteq> ''upsert'' \<and> Object options \<noteq> [] \<and>
    ExternalIDFieldName options = [] \<longrightarrow> snd (formatOptions options) = None)"
  by (simp add: formatOptions_def create_def Upsert_def Let_def)

theorem create_validation_witness:
  "create zero_Env \<lparr>WriteResponse = zero_WriteResponse\<rparr>
      \<lparr>ColumnDelimiter = [], ContentType = [], ExternalIDFieldName = [], LineEnding = [],
       Object = ''Account'', Operation = []\<rparr>
     = ((\<lparr>WriteResponse = zero_WriteResponse\<rparr>,
         Some (ErrorsNew ''bulk job: operation is required'')), []) \<and>
   create zero_Env \<lparr>WriteResponse = zero_WriteResponse\<rparr>
      \<lparr>ColumnDelimiter = [], ContentType = [], ExternalIDFieldName = [], LineEnding = [],
       Object = ''Account'', Operation = ''upsert''\<rparr>
     = ((\<lparr>WriteResponse = zero_WriteResponse\<rparr>,
         Some (ErrorsNew ''bulk job: external id field name is required for upsert operation'')),
        []) \<and>
   create zero_Env \<lparr>WriteResponse = zero_WriteResponse\<rparr>
      \<lparr>ColumnDelimiter = [], ContentType = [], ExternalIDFieldName = [], LineEnding = [],
       Object = [], Operation = ''insert''\<rparr>
     = ((\<lparr>WriteResponse = zero_WriteResponse\<rparr>,
         Some (ErrorsNew ''bulk job: object is required'')), []) \<and>
   snd (formatOptions
      \<lparr>ColumnDelimiter = [], ContentType = [], ExternalIDFieldName = [], LineEnding = [],
       Object = ''Account'', Operation = ''insert''\<rparr>) = None"
  using
    create_validation [of
      "\<lparr>ColumnDelimiter = [], ContentType = [], ExternalIDFieldName = [], LineEnding = [],
        Object = ''Account'', Operation = []\<rparr>"
      zero_Env "\<lparr>WriteResponse = zero_WriteResponse\<rparr>"]
    create_validation [of
      "\<lparr>ColumnDelimiter = [], ContentType = [], ExternalIDFieldName = [], LineEnding = [],
        Object = ''Account'', Operation = ''upsert''\<rparr>"
      zero_Env "\<lparr>WriteResponse = zero_WriteResponse\<rparr>"]
    create_validation [of
      "\<lparr>ColumnDelimiter = [], ContentType = [], ExternalIDFieldName = [], LineEnding = [],
        Object = [], Operation = ''insert''\<rparr>"
      zero_Env "\<lparr>WriteResponse = zero_WriteResponse\<rparr>"]
    create_validation [of
      "\<lparr>ColumnDelimiter = [], ContentType = [], ExternalIDFieldName = [], LineEnding = [],
        Object = ''Account'', Operation = ''insert''\<rparr>"
      zero_Env "\<lparr>WriteResponse = zero_WriteResponse\<rparr>"]
  by simp

lemma formatOptions_ok:
  assumes "formatOptions options = (options', None)"
  shows "options' = options
        \<lparr>LineEnding := (if LineEnding options = [] then ''LF'' else LineEnding options),
         ContentType := (if ContentType options = [] then ''CSV'' else ContentType options),
         ColumnDelimiter :=
           (if ColumnDelimiter options = [] then ''COMMA'' else ColumnDelimiter options)\<rparr>"
proof -
  from assms have valid: "Operation options \<noteq> []"
    "\<not> (Operation options = Upsert \<and> ExternalIDFieldName options = [])"
    "Object options \<noteq> []"
    by (auto simp: formatOptions_def split: if_splits)
  have "fst (formatOptions options) = options
        \<lparr>LineEnding := (if LineEnding options = [] then ''LF'' else LineEnding options),
         ContentType := (if ContentType options = [] then ''CSV'' else ContentType options),
         ColumnDelimiter :=
           (if ColumnDelimiter options = [] then ''COMMA'' else ColumnDelimiter options)\<rparr>"
    by (cases "LineEnding options = []"; cases "ContentType options = []";
        cases "ColumnDelimiter options = []")
       (simp_all add: formatOptions_def valid Let_def Linefeed_def CSV_def Comma_def)
  with assms show ?thesis by simp
qed

lemma query_formatOptions_ok:
  assumes "query_formatOptions qoptions = (qoptions', None)"
  shows "qoptions' = qoptions
        \<lparr>q_LineEnding := (if q_LineEnding qoptions = [] then ''LF'' else q_LineEnding qoptions),
         q_ContentType :=
           (if q_ContentType qoptions = [] then ''CSV'' else q_ContentType qoptions),
         q_ColumnDelimiter :=
           (if q_ColumnDelimiter qoptions = [] then ''COMMA'' else q_ColumnDelimiter qoptions),
         q_Operation :=
           (if q_Operation qoptions = [] then ''query'' else q_Operation qoptions)\<rparr>"
proof -
  from assms have valid: "q_Query qoptions \<noteq> []"
    by (auto simp: query_formatOptions_def split: if_splits)
  have "fst (query_formatOptions qoptions) = qoptions
        \<lparr>q_LineEnding := (if q_LineEnding qoptions = [] then ''LF'' else q_LineEnding qoptions),
         q_ContentType :=
           (if q_ContentType qoptions = [] then ''CSV'' else q_ContentType qoptions),
         q_ColumnDelimiter :=
           (if q_ColumnDelimiter qoptions = [] then ''COMMA'' else q_ColumnDelimiter qoptions),
         q_Operation :=
           (if q_Operation qoptions = [] then ''query'' else q_Operation qoptions)\<rparr>"
    by (cases "q_LineEnding qoptions = []"; cases "q_ContentType qoptions = []";
        cases "q_ColumnDelimiter qoptions = []"; cases "q_Operation qoptions = []")
       (simp_all add: query_formatOptions_def valid Let_def Linefeed_def CSV_def Comma_def
          Query_def)
  with assms show ?thesis by simp
qed

lemma formatOptions_valid:
  assumes "Operation options \<noteq> []" and "Object options \<noteq> []"
    and "\<not> (Operation options = ''upsert'' \<and> ExternalIDFieldName options = [])"
  shows "formatOptions options =
     (options
        \<lparr>LineEnding := (if LineEnding options = [] then ''LF'' else LineEnding options),
         ContentType := (if ContentType options = [] then ''CSV'' else ContentType options),
         ColumnDelimiter :=
           (if ColumnDelimiter options = [] then ''COMMA'' else ColumnDelimiter options)\<rparr>,
      None)"
proof -
  from assms(3) have up: "\<not> (Operation options = Upsert \<and> ExternalIDFieldName options = [])"
    by (simp add: Upsert_def)
  show ?thesis
    by (cases "LineEnding options = []"; cases "ContentType options = []";
        cases "ColumnDelimiter options = []")
       (simp_all add: formatOptions_def assms(1,2) up Let_def Linefeed_def CSV_def Comma_def)
qed

lemma query_formatOptions_valid:
  assumes "q_Query qoptions \<noteq> []"
  shows "query_formatOptions qoptions =
     (qoptions
        \<lparr>q_LineEnding := (if q_LineEnding qoptions = [] then ''LF'' else q_LineEnding qoptions),
         q_ContentType :=
           (if q_ContentType qoptions = [] then ''CSV'' else q_ContentType qoptions),
         q_ColumnDelimiter :=
           (if q_ColumnDelimiter qoptions = [] then ''COMMA'' else q_ColumnDelimiter qoptions),
         q_Operation :=
           (if q_Operation qoptions = [] then ''query'' else q_Operation qoptions)\<rparr>,
      None)"
  by (cases "q_LineEnding qoptions = []"; cases "q_ContentType qoptions = []";
      cases "q_ColumnDelimiter qoptions = []"; cases "q_Operation qoptions = []")
     (simp_all add: query_formatOptions_def assms Let_def Linefeed_def CSV_def Comma_def
        Query_def)

text \<open>
  Claim C6. Options pass the validation of the ingest job exactly when operation and
  object are non-empty and an upsert has its external ID field name; query options pass
  exactly when the query is non-empty. For options that pass, \<^verbatim>\<open>formatOptions\<close> of
  the ingest job returns them with line ending \<^verbatim>\<open>LF\<close>, content type \<^verbatim>\<open>CSV\<close> and
  column delimiter \<^verbatim>\<open>COMMA\<close> put in exactly the fields that were empty, and
  \<^verbatim>\<open>formatOptions\<close> of the query job does the same and puts operation \<^verbatim>\<open>query\<close> in
  an empty operation; a non-empty field and every other field is unchanged.
\<close>

theorem formatOptions_defaults:
  "(formatOptions options = (options', None) \<longrightarrow>
      options' = options
        \<lparr>LineEnding := (if LineEnding options = [] then ''LF'' else LineEnding options),
         ContentType := (if ContentType options = [] then ''CSV'' else ContentType options),
         ColumnDelimiter :=
           (if ColumnDelimiter options = [] then ''COMMA'' else ColumnDelimiter options)\<rparr>) \<and>
   (query_formatOptions qoptions = (qoptions', None) \<longrightarrow>
      qoptions' = qoptions
        \<lparr>q_LineEnding := (if q_LineEnding qoptions = [] then ''LF'' else q_LineEnding qoptions),
         q_ContentType :=
           (if q_ContentType qoptions = [] then ''CSV'' else q_ContentType qoptions),
         q_ColumnDelimiter :=
           (if q_ColumnDelimiter qoptions = [] then ''COMMA'' else q_ColumnDelimiter qoptions),
         q_Operation :=
           (if q_Operation qoptions = [] then ''query'' else q_Operation qoptions)\<rparr>) \<and>
   (Operation options \<noteq> [] \<and> Object options \<noteq> [] \<and>
    \<not> (Operation options = ''upsert'' \<and> ExternalIDFieldName options = []) \<longrightarrow>
      formatOptions options =
        (options
           \<lparr>LineEnding := (if LineEnding options = [] then ''LF'' else LineEnding options),
            ContentType := (if ContentType options = [] then ''CSV'' else ContentType options),
            ColumnDelimiter :=
              (if ColumnDelimiter options = [] then ''COMMA'' else ColumnDelimiter options)\<rparr>,
         None)) \<and>
   (q_Query qoptions \<noteq> [] \<longrightarrow>
      query_formatOptions qoptions =
        (qoptions
           \<lparr>q_LineEnding :=
              (if q_LineEnding qoptions = [] then ''LF'' else q_LineEnding qoptions),
            q_ContentType :=
              (if q_ContentType qoptions = [] then ''CSV'' else q_ContentType qoptions),
            q_ColumnDelimiter :=
              (if q_ColumnDelimiter qoptions = [] then ''COMMA''
               else q_ColumnDelimiter qoptions),
            q_Operation :=
              (if q_Operation qoptions = [] then ''query'' else q_Operation qoptions)\<rparr>,
         None)) \<and>
   (q_Query qoptions = [] \<longrightarrow>
      query_formatOptions qoptions =
        (qoptions, Some (ErrorsNew ''bulk job: query is required'')))"
proof (intro conjI impI)
  assume "formatOptions options = (options', None)"
  then show "options' = options
        \<lparr>LineEnding := (if LineEnding options = [] then ''LF'' else LineEnding options),
         ContentType := (if ContentType options = [] then ''CSV'' else ContentType options),
         ColumnDelimiter :=
           (if ColumnDelimiter options = [] then ''COMMA'' else ColumnDelimiter options)\<rparr>"
    by (rule formatOptions_ok)
next
  assume "query_formatOptions qoptions = (qoptions', None)"
  then show "qoptions' = qoptions
        \<lparr>q_LineEnding := (if q_LineEnding qoptions = [] then ''LF'' else q_LineEnding qoptions),
         q_ContentType :=
           (if q_ContentType qoptions = [] then ''CSV'' else q_ContentType qoptions),
         q_ColumnDelimiter :=
           (if q_ColumnDelimiter qoptions = [] then ''COMMA'' else q_ColumnDelimiter qoptions),
         q_Operation :=
           (if q_Operation qoptions = [] then ''query'' else q_Operation qoptions)\<rparr>"
    by (rule query_formatOptions_ok)
next
  assume "Operation options \<noteq> [] \<and> Object options \<noteq> [] \<and>
    \<not> (Operation options = ''upsert'' \<and> ExternalIDFieldName options = [])"
  then show "formatOptions options =
        (options
           \<lparr>LineEnding := (if LineEnding options = [] then ''LF'' else LineEnding options),
            ContentType := (if ContentType options = [] then ''CSV'' else ContentType options),
            ColumnDelimiter :=
              (if ColumnDelimiter options = [] then ''COMMA'' else ColumnDelimiter options)\<rparr>,
         None)"
    by (intro formatOptions_valid) simp_all
next
  assume "q_Query qoptions \<noteq> []"
  then show "query_formatOptions qoptions =
        (qoptions
           \<lparr>q_LineEnding :=
              (if q_LineEnding qoptions = [] then ''LF'' else q_LineEnding qoptions),
            q_ContentType :=
              (if q_ContentType qoptions = [] then ''CSV'' else q_ContentType qoptions),
            q_ColumnDelimiter :=
              (if q_ColumnDelimiter qoptions = [] then ''COMMA''
               else q_ColumnDelimiter qoptions),
            q_Operation :=
              (if q_Operation qoptions = [] then ''query'' else q_Operation qoptions)\<rparr>,
         None)"
    by (rule query_formatOptions_valid)
next
  assume "q_Query qoptions = []"
  then show "query_formatOptions qoptions =
        (qoptions, Some (ErrorsNew ''bulk job: query is required''))"
    by (simp add: query_formatOptions_def)
qed

theorem formatOptions_defaults_witness:
  "formatOptions
      \<lparr>ColumnDelimiter = ''PIPE'', ContentType = [], ExternalIDFieldName = ''Ext__c'',
       LineEnding = [], Object = ''Account'', Operation = ''upsert''\<rparr>
     = (\<lparr>ColumnDelimiter = ''PIPE'', ContentType = ''CSV'', ExternalIDFieldName = ''Ext__c'',
         LineEnding = ''LF'', Object = ''Account'', Operation = ''upsert''\<rparr>, None) \<and>
   query_formatOptions
      \<lparr>q_ColumnDelimiter = [], q_ContentType = [], q_LineEnding = ''CRLF'',
       q_Query = ''SELECT Id FROM Account'', q_Operation = []\<rparr>
     = (\<lparr>q_ColumnDelimiter = ''COMMA'', q_ContentType = ''CSV'', q_LineEnding = ''CRLF'',
         q_Query = ''SELECT Id FROM Account'', q_Operation = ''query''\<rparr>, None) \<and>
   formatOptions
      \<lparr>ColumnDelimiter = [], ContentType = ''CSV'', ExternalIDFieldName = [],
       LineEnding = ''CRLF'', Object = ''Contact'', Operation = ''insert''\<rparr>
     = (\<lparr>ColumnDelimiter = ''COMMA'', ContentType = ''CSV'', ExternalIDFieldName = [],
         LineEnding = ''CRLF'', Object = ''Contact'', Operation = ''insert''\<rparr>, None) \<and>
   query_formatOptions
      \<lparr>q_ColumnDelimiter = ''TAB'', q_ContentType = ''CSV'', q_LineEnding = [],
       q_Query = ''SELECT Id FROM Account'', q_Operation = ''queryAll''\<rparr>
     = (\<lparr>q_ColumnDelimiter = ''TAB'', q_ContentType = ''CSV'', q_LineEnding = ''LF'',
         q_Query = ''SELECT Id FROM Account'', q_Operation = ''queryAll''\<rparr>, None) \<and>
   query_formatOptions
      \<lparr>q_ColumnDelimiter = [], q_ContentType = [], q_LineEnding = [],
       q_Query = [], q_Operation = []\<rparr>
     = (\<lparr>q_ColumnDelimiter = [], q_ContentType = [], q_LineEnding = [],
         q_Query = [], q_Operation = []\<rparr>, Some (ErrorsNew ''bulk job: query is required''))"
proof -
  let ?o1 = "\<lparr>ColumnDelimiter = ''PIPE'', ContentType = [], ExternalIDFieldName = ''Ext__c'',
       LineEnding = [], Object = ''Account'', Operation = ''upsert''\<rparr>"
  let ?o2 = "\<lparr>ColumnDelimiter = [], ContentType = ''CSV'', ExternalIDFieldName = [],
       LineEnding = ''CRLF'', Object = ''Contact'', Operation = ''insert''\<rparr>"
  let ?q1 = "\<lparr>q_ColumnDelimiter = [], q_ContentType = [], q_LineEnding = ''CRLF'',
       q_Query = ''SELECT Id FROM Account'', q_Operation = []\<rparr>"
  let ?q2 = "\<lparr>q_ColumnDelimiter = ''TAB'', q_ContentType = ''CSV'', q_LineEnding = [],
       q_Query = ''SELECT Id FROM Account'', q_Operation = ''queryAll''\<rparr>"
  let ?q3 = "\<lparr>q_ColumnDelimiter = [], q_ContentType = [], q_LineEnding = [],
       q_Query = [], q_Operation = []\<rparr>"
  note a = formatOptions_defaults [of ?o1 ?o1 ?q1 ?q1]
  note b = formatOptions_defaults [of ?o2 ?o2 ?q2 ?q2]
  note c = formatOptions_defaults [of ?o1 ?o1 ?q3 ?q3]
  have 1: "formatOptions ?o1 = (\<lparr>ColumnDelimiter = ''PIPE'', ContentType = ''CSV'',
      ExternalIDFieldName = ''Ext__c'', LineEnding = ''LF'', Object = ''Account'',
      Operation = ''upsert''\<rparr>, None)"
    using a[THEN conjunct2, THEN conjunct2, THEN conjunct1] by simp
  have 2: "query_formatOptions ?q1 = (\<lparr>q_ColumnDelimiter = ''COMMA'', q_ContentType = ''CSV'',
      q_LineEnding = ''CRLF'', q_Query = ''SELECT Id FROM Account'', q_Operation = ''query''\<rparr>,
      None)"
    using a[THEN conjunct2, THEN conjunct2, THEN conjunct2, THEN conjunct1] by simp
  have 3: "formatOptions ?o2 = (\<lparr>ColumnDelimiter = ''COMMA'', ContentType = ''CSV'',
      ExternalIDFieldName = [], LineEnding = ''CRLF'', Object = ''Contact'',
      Operation = ''insert''\<rparr>, None)"
    using b[THEN conjunct2, THEN conjunct2, THEN conjunct1] by simp
  have 4: "query_formatOptions ?q2 = (\<lparr>q_ColumnDelimiter = ''TAB'', q_ContentType = ''CSV'',
      q_LineEnding = ''LF'', q_Query = ''SELECT Id FROM Account'', q_Operation = ''queryAll''\<rparr>,
      None)"
    using b[THEN conjunct2, THEN conjunct2, THEN conjunct2, THEN conjunct1] by simp
  have 5: "query_formatOptions ?q3 = (?q3, Some (ErrorsNew ''bulk job: query is required''))"
    using c[THEN conjunct2, THEN conjunct2, THEN conjunct2, THEN conjunct2] by simp
  from 1 2 3 4 5 show ?thesis by (intro conjI)
qed

section \<open>Validation of the credentials\<close>

text \<open>
  Claim C9. \<^verbatim>\<open>NewPasswordCredentials\<close> and \<^verbatim>\<open>NewRefreshTokenCredentials\<close> build
  the provider only when every required field is non-empty; otherwise they return no
  credentials and the error of the first empty field, whose text names that field.
\<close>

theorem credentials_validation:
  "(case find (\<lambda>p. fst p = []) (password_required pcreds) of
      None \<Rightarrow> NewPasswordCredentials pcreds = (Some (passwordProvider pcreds), None)
    | Some (v, name) \<Rightarrow>
        NewPasswordCredentials pcreds =
          (None, Some (ErrorsNew
            (''credentials: password credential's '' @ name @ '' can not be empty'')))) \<and>
   (case find (\<lambda>p. fst p = []) (refresh_required rcreds) of
      None \<Rightarrow> NewRefreshTokenCredentials rcreds = (Some (refreshTokenProvider rcreds), None)
    | Some (v, name) \<Rightarrow>
        NewRefreshTokenCredentials rcreds =
          (None, Some (ErrorsNew
            (''credentials: ''
             @ (if name = ''refreshToken'' then ''refresh token'' else ''password'')
             @ '' credential's '' @ name @ '' can not be empty''))))"
  by (simp add: password_required_def refresh_required_def NewPasswordCredentials_def
      NewRefreshTokenCredentials_def validatePasswordCredentials_def
      validateRefreshTokenCredentials_def)

theorem credentials_validation_witness:
  "NewPasswordCredentials
     \<lparr>pc_URL = ''https://login.salesforce.com'', pc_Username = ''user'', pc_Password = [],
      pc_ClientID = [], pc_ClientSecret = ''secret''\<rparr>
    = (None, Some (ErrorsNew ''credentials: password credential's password can not be empty'')) \<and>
   NewRefreshTokenCredentials
     \<lparr>rc_URL = ''https://login.salesforce.com'', rc_RefreshToken = ''token'',
      rc_ClientID = ''id'', rc_ClientSecret = ''secret''\<rparr>
    = (Some (refreshTokenProvider
         \<lparr>rc_URL = ''https://login.salesforce.com'', rc_RefreshToken = ''token'',
          rc_ClientID = ''id'', rc_ClientSecret = ''secret''\<rparr>), None)"
  using credentials_validation [of
     "\<lparr>pc_URL = ''https://login.salesforce.com'', pc_Username = ''user'', pc_Password = [],
      pc_ClientID = [], pc_ClientSecret = ''secret''\<rparr>"
     "\<lparr>rc_URL = ''https://login.salesforce.com'', rc_RefreshToken = ''token'',
      rc_ClientID = ''id'', rc_ClientSecret = ''secret''\<rparr>"]
  by (simp add: password_required_def refresh_required_def)

section \<open>The result parsers on a concrete result set\<close>

lemmas successfulRecord_eval =
  successfulRecord_def headerPosition_def sfCreated_def sfID_def index_def ParseBool_def
  sliceFrom_def record_go_def


lemma reads_example_lf:
  "reads ((NewReader ''sf__Id,sf__Created,Name\<newline>001,true,Acme\<newline>'')\<lparr>r_Comma := CHR '',''\<rparr>)
     = [Inr [''sf__Id'', ''sf__Created'', ''Name''], Inr [''001'', ''true'', ''Acme'']]"
  by code_simp

lemma reads_example_nolf:
  "reads ((NewReader ''sf__Id,sf__Created,Name\<newline>001,true,Acme'')\<lparr>r_Comma := CHR '',''\<rparr>)
     = [Inr [''sf__Id'', ''sf__Created'', ''Name''], Inr [''001'', ''true'', ''Acme'']]"
  by code_simp

lemma successfulResults_example:
  "successfulResults [Inr [''sf__Id'', ''sf__Created'', ''Name''], Inr [''001'', ''true'', ''Acme'']]
     = Done ([\<lparr>Fields = [''Name'' \<mapsto> ''Acme''], ID = ''001'', Created = True\<rparr>], None)"
  by (simp add: successfulResults_def successfulRecord_eval)

text \<open>
  Claim C1. With a delimiter that resolves to the comma, \<^verbatim>\<open>ParseSuccessfulResults\<close>
  on the input with header row \<^verbatim>\<open>sf__Id,sf__Created,Name\<close> and data row
  \<^verbatim>\<open>001,true,Acme\<close> (with or without a final newline) returns no error and exactly
  one record, with ID \<^verbatim>\<open>001\<close>, Created true and Fields exactly Name \<open>\<mapsto>\<close> Acme.
\<close>

theorem ParseSuccessfulResults_example:
  assumes "delimiter j = CHR '',''"
  shows "ParseSuccessfulResults j ''sf__Id,sf__Created,Name\<newline>001,true,Acme\<newline>''
           = Done ([\<lparr>Fields = [''Name'' \<mapsto> ''Acme''], ID = ''001'', Created = True\<rparr>], None) \<and>
         ParseSuccessfulResults j ''sf__Id,sf__Created,Name\<newline>001,true,Acme''
           = Done ([\<lparr>Fields = [''Name'' \<mapsto> ''Acme''], ID = ''001'', Created = True\<rparr>], None)"
  unfolding ParseSuccessfulResults_def jobReads_def assms reads_example_lf reads_example_nolf
  by (simp add: successfulResults_example)

theorem ParseSuccessfulResults_example_witness:
  "delimiter \<lparr>WriteResponse = zero_WriteResponse\<lparr>wr_ColumnDelimiter := ''COMMA''\<rparr>\<rparr> = CHR '','' \<and>
   ParseSuccessfulResults \<lparr>WriteResponse = zero_WriteResponse\<lparr>wr_ColumnDelimiter := ''COMMA''\<rparr>\<rparr>
       ''sf__Id,sf__Created,Name\<newline>001,true,Acme\<newline>''
     = Done ([\<lparr>Fields = [''Name'' \<mapsto> ''Acme''], ID = ''001'', Created = True\<rparr>], None)"
proof -
  have d: "delimiter \<lparr>WriteResponse = zero_WriteResponse\<lparr>wr_ColumnDelimiter := ''COMMA''\<rparr>\<rparr>
             = CHR '',''"
    by (simp add: delimiter_def zero_WriteResponse_def delimiter_names delimiter_runes)
  from ParseSuccessfulResults_example [OF d] d show ?thesis by simp
qed

section \<open>Properties of the reader and of the parser loops\<close>

text \<open>
  Every record the reader returns has at least one field, and after the first record
  every record has as many fields as the first (\<^verbatim>\<open>FieldsPerRecord = 0\<close> makes the
  first record set the count).
\<close>

lemma parse_grows:
  "parseField comma line rest dst = (Inr out, rest') \<Longrightarrow> length dst < length out"
  "parseQuoted comma line rest buf dst = (Inr out, rest') \<Longrightarrow> length dst < length out"
proof (induction comma line rest dst and comma line rest buf dst
    arbitrary: out rest' and out rest' rule: parseField_parseQuoted.induct)
  case (1 comma line rest dst)
  show ?case
  proof (cases "line = [] \<or> hd line \<noteq> rune_quote")
    case unquoted: True
    show ?thesis
    proof (cases "dropWhile (\<lambda>c. c \<noteq> comma) line")
      case Nil
      have "parseField comma line rest dst =
              (let field = take (length line - lengthNL line) line in
               if rune_quote \<in> set field then (Inl ErrBareQuote, rest)
               else (Inr (dst @ [field]), rest))"
        by (subst parseField.simps) (simp add: unquoted Nil)
      with "1.prems" show ?thesis
        by (auto simp: Let_def split: if_splits)
    next
      case (Cons c line')
      let ?field = "takeWhile (\<lambda>c. c \<noteq> comma) line"
      have eq: "parseField comma line rest dst =
              (if rune_quote \<in> set ?field then (Inl ErrBareQuote, rest)
               else parseField comma line' rest (dst @ [?field]))"
        by (subst parseField.simps) (simp add: unquoted Cons Let_def)
      show ?thesis
      proof (cases "rune_quote \<in> set ?field")
        case True
        with eq "1.prems" show ?thesis by simp
      next
        case False
        with eq "1.prems" have "parseField comma line' rest (dst @ [?field]) = (Inr out, rest')"
          by simp
        from "1.IH"(1)[OF unquoted Cons refl False this] show ?thesis by simp
      qed
    qed
  next
    case quoted: False
    have "parseField comma line rest dst = parseQuoted comma (tl line) rest [] dst"
      by (subst parseField.simps) (simp add: quoted)
    with "1.prems" "1.IH"(2)[OF quoted] show ?thesis by simp
  qed
next
  case (2 comma line rest buf dst)
  show ?case
  proof (cases "dropWhile (\<lambda>c. c \<noteq> rune_quote) line")
    case Nil
    show ?thesis
    proof (cases "line = []")
      case True
      have "parseQuoted comma line rest buf dst = (Inl ErrQuote, rest)"
        by (subst parseQuoted.simps) (simp add: True)
      with "2.prems" show ?thesis by simp
    next
      case False
      obtain l e r where rl: "readLine rest = (l, e, r)"
        by (cases "readLine rest") auto
      have "parseQuoted comma line rest buf dst = parseQuoted comma l r (buf @ line) dst"
        by (subst parseQuoted.simps) (simp add: Nil False rl)
      with "2.prems" "2.IH"(1)[OF Nil False rl[symmetric] refl] show ?thesis
        by simp
    qed
  next
    case (Cons q line')
    let ?buf = "buf @ takeWhile (\<lambda>c. c \<noteq> rune_quote) line"
    have eq: "parseQuoted comma line rest buf dst =
           (if line' \<noteq> [] \<and> hd line' = rune_quote then
              parseQuoted comma (tl line') rest (?buf @ [rune_quote]) dst
            else if line' \<noteq> [] \<and> hd line' = comma then
              parseField comma (tl line') rest (dst @ [?buf])
            else if lengthNL line' = length line' then (Inr (dst @ [?buf]), rest)
            else (Inl ErrQuote, rest))"
      by (subst parseQuoted.simps) (simp add: Cons Let_def)
    show ?thesis
    proof (cases "line' \<noteq> [] \<and> hd line' = rune_quote")
      case True
      with eq "2.prems"
      have "parseQuoted comma (tl line') rest (?buf @ [rune_quote]) dst = (Inr out, rest')"
        by simp
      from "2.IH"(2)[OF Cons refl True this] show ?thesis by simp
    next
      case nq: False
      show ?thesis
      proof (cases "line' \<noteq> [] \<and> hd line' = comma")
        case True
        with nq eq "2.prems" have "parseField comma (tl line') rest (dst @ [?buf]) = (Inr out, rest')"
          by simp
        from "2.IH"(3)[OF Cons refl nq True this] show ?thesis by simp
      next
        case False
        with nq eq "2.prems" show ?thesis
          by (auto split: if_splits)
      qed
    qed
  qed
qed

lemma Read_row:
  assumes "Read r = (Inr row, r')"
  shows "row \<noteq> []" and "r_FieldsPerRecord r' = length row" and "r_Comma r' = r_Comma r"
    and "0 < r_FieldsPerRecord r \<Longrightarrow> length row = r_FieldsPerRecord r"
proof -
  obtain line eof rest where nl: "nextLine (r_input r) = (line, eof, rest)"
    by (cases "nextLine (r_input r)") auto
  obtain res rest' where pf: "parseField (r_Comma r) line rest [] = (res, rest')"
    by (cases "parseField (r_Comma r) line rest []") auto
  from assms nl pf have res: "res = Inr row"
    by (auto simp: Read_def split: if_splits sum.splits)
  with pf have "length ([]::string list) < length row"
    by (intro parse_grows(1)[of "r_Comma r" line rest "[]" row rest']) simp
  then show "row \<noteq> []" by auto
  then have pos: "0 < length row" by simp
  from assms nl pf res pos show "r_FieldsPerRecord r' = length row"
    by (auto simp: Read_def split: if_splits)
  from assms nl pf res show "r_Comma r' = r_Comma r"
    by (auto simp: Read_def split: if_splits)
  assume "0 < r_FieldsPerRecord r"
  with assms nl pf res show "length row = r_FieldsPerRecord r"
    by (auto simp: Read_def split: if_splits)
qed

lemma reads_lengths:
  "0 < r_FieldsPerRecord r \<Longrightarrow> Inr row \<in> set (reads r) \<Longrightarrow> length row = r_FieldsPerRecord r"
proof (induction r rule: reads.induct)
  case (1 r)
  obtain res r' where rd: "Read r = (res, r')"
    by (cases "Read r") auto
  show ?case
  proof (cases res)
    case (Inl err)
    with rd "1.prems"(2) show ?thesis
      by (subst (asm) reads.simps) (auto split: if_splits)
  next
    case (Inr row')
    with rd have step: "reads r = Inr row' # reads r'"
      by (subst reads.simps) simp
    from rd Inr "1.prems"(1) have len: "length row' = r_FieldsPerRecord r"
      and fpr: "r_FieldsPerRecord r' = length row'"
      by (auto dest: Read_row)
    from "1.prems"(2) step consider "row = row'" | "Inr row \<in> set (reads r')"
      by auto
    then show ?thesis
    proof cases
      case 1
      with len show ?thesis by simp
    next
      case 2
      from fpr len "1.prems"(1) have "0 < r_FieldsPerRecord r'" by simp
      from "1.IH"[OF rd[symmetric] Inr this 2] fpr len show ?thesis
        by simp
    qed
  qed
qed

lemma reads_header_lengths:
  assumes "reads ((NewReader stream)\<lparr>r_Comma := comma\<rparr>) = Inr header # rs"
    and "Inr values \<in> set rs"
  shows "length values = length header"
proof -
  let ?r = "(NewReader stream)\<lparr>r_Comma := comma\<rparr>"
  obtain res r' where rd: "Read ?r = (res, r')"
    by (cases "Read ?r") auto
  from assms(1) rd have res: "res = Inr header" and rs: "rs = reads r'"
    by (subst (asm) reads.simps; auto split: sum.splits if_splits)+
  from rd res have "header \<noteq> []" and "r_FieldsPerRecord r' = length header"
    by (auto dest: Read_row)
  with assms(2) rs reads_lengths[of r' "values"] show ?thesis
    by simp
qed

lemma headerPositionFrom_absent:
  "column \<notin> set header \<Longrightarrow> headerPositionFrom idx column header = -1"
  by (induction header arbitrary: idx) auto

lemma headerPosition_absent:
  "column \<notin> set header \<Longrightarrow> headerPosition column header = -1"
  by (simp add: headerPosition_def headerPositionFrom_absent)

lemma headerPositionFrom_present:
  "column \<in> set header \<Longrightarrow>
     idx \<le> headerPositionFrom idx column header \<and>
     headerPositionFrom idx column header < idx + int (length header) \<and>
     header ! nat (headerPositionFrom idx column header - idx) = column"
proof (induction header arbitrary: idx)
  case Nil
  then show ?case by simp
next
  case (Cons col header)
  show ?case
  proof (cases "col = column")
    case True
    then show ?thesis by simp
  next
    case False
    with Cons.prems have "column \<in> set header" by simp
    from Cons.IH[OF this, of "idx + 1"]
    have ih: "idx + 1 \<le> headerPositionFrom (idx + 1) column header"
      "headerPositionFrom (idx + 1) column header < idx + 1 + int (length header)"
      "header ! nat (headerPositionFrom (idx + 1) column header - (idx + 1)) = column"
      by simp_all
    from ih(1) have "nat (headerPositionFrom (idx + 1) column header - idx)
        = Suc (nat (headerPositionFrom (idx + 1) column header - (idx + 1)))"
      by linarith
    with ih False show ?thesis
      by simp
  qed
qed

lemma headerPosition_present:
  assumes "column \<in> set header"
  shows "0 \<le> headerPosition column header"
    and "headerPosition column header < int (length header)"
    and "header ! nat (headerPosition column header) = column"
  using headerPositionFrom_present[OF assms, of 0] by (simp_all add: headerPosition_def)

lemma validDelim_delimiter: "validDelim (delimiter j)"
  by (simp add: validDelim_def delimiter_def Let_def delimiter_runes rune_quote_def rune_cr_def
      rune_nl_def)

lemma reads_empty: "reads ((NewReader [])\<lparr>r_Comma := delimiter j\<rparr>) = []"
proof -
  have "readLine [] = ([], True, [])"
    by (simp add: readLine_def)
  then have "nextLine [] = ([], True, [])"
    by (subst nextLine.simps) simp
  then have "fst (Read ((NewReader [])\<lparr>r_Comma := delimiter j\<rparr>)) = Inl EOF"
    by (simp add: Read_def NewReader_def validDelim_delimiter)
  then show ?thesis
    by (subst reads.simps) (auto split: prod.splits sum.splits)
qed

lemma successfulLoop_rows:
  "list_all2 (\<lambda>values record. successfulRecord header values = Done (Inr record)) rows recs \<Longrightarrow>
   successfulLoop header acc (map Inr rows @ tail) = successfulLoop header (acc @ recs) tail"
proof (induction rows arbitrary: acc recs)
  case Nil
  then show ?case by simp
next
  case (Cons vs rows)
  then obtain rcd recs' where recs: "recs = rcd # recs'"
    and row: "successfulRecord header vs = Done (Inr rcd)"
    and rest: "list_all2 (\<lambda>values record. successfulRecord header values = Done (Inr record))
                 rows recs'"
    by (auto simp: list_all2_Cons1)
  from Cons.IH[OF rest, of "acc @ [rcd]"] row recs show ?case
    by simp
qed






lemma reads_no_EOF: "Inl EOF \<notin> set (reads r)"
proof (induction r rule: reads.induct)
  case (1 r)
  obtain res r' where rd: "Read r = (res, r')"
    by (cases "Read r") auto
  show ?case
  proof (cases res)
    case (Inl err)
    with rd show ?thesis
      by (subst reads.simps) simp
  next
    case (Inr row)
    with rd have "reads r = Inr row # reads r'"
      by (subst reads.simps) simp
    with "1.IH"[OF rd[symmetric] Inr] show ?thesis
      by simp
  qed
qed

lemma jobReads_no_EOF: "Inl EOF \<notin> set (jobReads j stream)"
  by (simp add: jobReads_def reads_no_EOF)

lemma jobReads_empty: "jobReads j [] = []"
  by (simp add: jobReads_def reads_empty)

lemma jobReads_lengths:
  "jobReads j stream = Inr header # rs \<Longrightarrow> Inr vs \<in> set rs \<Longrightarrow> length vs = length header"
  unfolding jobReads_def by (rule reads_header_lengths)



lemma ParseBool_invalid:
  "str \<notin> {''1'', ''t'', ''T'', ''TRUE'', ''true'', ''True'',
            ''0'', ''f'', ''F'', ''FALSE'', ''false'', ''False''}
   \<Longrightarrow> ParseBool str = Inl (NumError ''ParseBool'' str)"
  by (simp add: ParseBool_def)

lemma index_present:
  assumes "column \<in> set header" and "length vs = length header"
  shows "index vs (headerPosition column header) = Done (vs ! nat (headerPosition column header))"
  using headerPosition_present(1,2)[OF assms(1)] assms(2) by (simp add: index_def)

lemma index_absent:
  assumes "column \<notin> set header"
  shows "index vs (headerPosition column header) = Panics (IndexOutOfRange (- 1) (length vs))"
  using headerPosition_absent[OF assms] by (simp add: index_def)

lemma successfulRecord_bad_bool:
  assumes "sfCreated \<in> set header" and "length vs = length header"
    and "ParseBool (vs ! nat (headerPosition sfCreated header)) = Inl err"
  shows "successfulRecord header vs = Done (Inl err)"
  by (simp add: successfulRecord_def index_present[OF assms(1,2)] assms(3))

lemma recordFrom_no_panic:
  "idx + length fs \<le> length vs \<Longrightarrow> \<exists>m. recordFrom idx fs vs m0 = Done m"
  by (induction fs arbitrary: idx m0) auto

lemma two_distinct_columns:
  assumes "a \<in> set header" and "b \<in> set header" and "a \<noteq> b"
  shows "2 \<le> length header"
proof -
  from assms(3) have "card {a, b} = 2" by simp
  moreover from assms(1,2) have "card {a, b} \<le> card (set header)"
    by (intro card_mono) auto
  moreover have "card (set header) \<le> length header"
    by (rule card_length)
  ultimately show ?thesis by simp
qed

lemma successfulRecord_no_panic:
  assumes "sfID \<in> set header" and "sfCreated \<in> set header" and "length vs = length header"
  shows "\<exists>x. successfulRecord header vs = Done x"
proof (cases "ParseBool (vs ! nat (headerPosition sfCreated header))")
  case (Inl err)
  with assms show ?thesis
    by (auto dest: successfulRecord_bad_bool)
next
  case (Inr created)
  have "sfID \<noteq> sfCreated" by (simp add: sfID_def sfCreated_def)
  from two_distinct_columns[OF assms(1,2) this] assms(3) have len: "2 \<le> length header" "2 \<le> length vs"
    by simp_all
  with assms(3) have "0 + length (drop 2 header) \<le> length (drop 2 vs)"
    by simp
  from recordFrom_no_panic[OF this] obtain m
    where "record_go (drop 2 header) (drop 2 vs) = Done m"
    by (auto simp: record_go_def)
  with Inr len show ?thesis
    by (simp add: successfulRecord_def index_present[OF assms(2,3)]
        index_present[OF assms(1,3)] sliceFrom_def)
qed



lemma successfulLoop_bad_bool:
  assumes "sfID \<in> set header" and "sfCreated \<in> set header"
    and "\<forall>vs. Inr vs \<in> set rs \<longrightarrow> length vs = length header"
    and "Inl EOF \<notin> set rs"
    and "Inr bad \<in> set rs"
    and "ParseBool (bad ! nat (headerPosition sfCreated header)) = Inl e"
  shows "\<exists>err. successfulLoop header acc rs = Done ([], Some err)"
  using assms(3,4,5)
proof (induction rs arbitrary: acc)
  case Nil
  then show ?case by simp
next
  case (Cons r rs)
  show ?case
  proof (cases r)
    case (Inl err)
    with Cons.prems(2) show ?thesis by auto
  next
    case (Inr vs)
    with Cons.prems(1) have len: "length vs = length header" by simp
    from successfulRecord_no_panic[OF assms(1,2) len]
    obtain x where x: "successfulRecord header vs = Done x" by blast
    show ?thesis
    proof (cases x)
      case (Inl err)
      with x Inr show ?thesis by simp
    next
      case ok: (Inr rcd)
      have "vs \<noteq> bad"
      proof
        assume "vs = bad"
        with successfulRecord_bad_bool[OF assms(2) len, of e] assms(6) x ok show False
          by simp
      qed
      with Cons.prems(3) Inr have "Inr bad \<in> set rs" by auto
      with Cons.IH[of "acc @ [rcd]"] Cons.prems(1,2) x ok Inr show ?thesis
        by simp
    qed
  qed
qed


lemma failedRecord_missing_column:
  assumes "sfError \<notin> set header \<or> sfID \<notin> set header" and "length vs = length header"
  shows "failedRecord header vs = Panics (IndexOutOfRange (- 1) (length vs))"
proof (cases "sfError \<in> set header")
  case True
  with assms(1) have "sfID \<notin> set header" by simp
  then show ?thesis
    by (simp add: failedRecord_def index_present[OF True assms(2)] index_absent)
next
  case False
  then show ?thesis
    by (simp add: failedRecord_def index_absent)
qed

lemma successfulRecord_missing_created:
  assumes "sfCreated \<notin> set header"
  shows "successfulRecord header vs = Panics (IndexOutOfRange (- 1) (length vs))"
  using assms by (simp add: successfulRecord_def index_absent)

lemma successfulRecord_missing_id:
  assumes "sfCreated \<in> set header" and "sfID \<notin> set header" and "length vs = length header"
    and "ParseBool (vs ! nat (headerPosition sfCreated header)) = Inr created"
  shows "successfulRecord header vs = Panics (IndexOutOfRange (- 1) (length vs))"
  using assms(2,4)
  by (simp add: successfulRecord_def index_present[OF assms(1,3)] index_absent)

lemma csvLine_not_Nil: "csvLine comma fs \<noteq> []"
  by (induction comma fs rule: csvLine.induct) auto

lemma csvLine_last: "last (csvLine comma fs) = rune_nl"
  by (induction comma fs rule: csvLine.induct) (auto simp: csvLine_not_Nil)

lemma csvLine_no_nl:
  "\<forall>f \<in> set fs. plainField comma f \<Longrightarrow> comma \<noteq> rune_nl \<Longrightarrow>
   rune_nl \<notin> set (butlast (csvLine comma fs))"
  by (induction comma fs rule: csvLine.induct)
     (auto simp: plainField_def butlast_append csvLine_not_Nil)

lemma csvLine_no_cr_end:
  "\<forall>f \<in> set fs. plainField comma f \<Longrightarrow> comma \<noteq> rune_cr \<Longrightarrow>
   rune_cr \<notin> set (butlast (csvLine comma fs))"
  by (induction comma fs rule: csvLine.induct)
     (auto simp: plainField_def butlast_append csvLine_not_Nil rune_cr_def rune_nl_def)

lemma parseField_csvLine:
  assumes "fs \<noteq> []" and "\<forall>f \<in> set fs. plainField comma f" and "validDelim comma"
  shows "parseField comma (csvLine comma fs) rest dst = (Inr (dst @ fs), rest)"
  using assms
proof (induction comma fs arbitrary: dst rule: csvLine.induct)
  case (1 comma)
  then show ?case by simp
next
  case (2 comma f)
  then have pf: "comma \<notin> set f" "rune_quote \<notin> set f"
    by (simp_all add: plainField_def)
  have hd: "f @ [rune_nl] = [] \<or> hd (f @ [rune_nl]) \<noteq> rune_quote"
    using pf(2) by (cases f) (auto simp: rune_nl_def rune_quote_def)
  have dw: "dropWhile (\<lambda>c. c \<noteq> comma) (f @ [rune_nl]) = []"
    using pf(1) "2.prems"(3) by (auto simp: dropWhile_append validDelim_def)
  have "parseField comma (f @ [rune_nl]) rest dst = (Inr (dst @ [f]), rest)"
    by (subst parseField.simps, subst if_P[OF hd]) (simp add: dw Let_def lengthNL_def pf)
  then show ?case by simp
next
  case (3 comma f g fs)
  then have pf: "comma \<notin> set f" "rune_quote \<notin> set f"
    by (simp_all add: plainField_def)
  let ?line = "f @ comma # csvLine comma (g # fs)"
  have hd: "?line = [] \<or> hd ?line \<noteq> rune_quote"
    using pf(2) "3.prems"(2,3)
    by (cases f) (auto simp: plainField_def validDelim_def)
  have dw: "dropWhile (\<lambda>c. c \<noteq> comma) ?line = comma # csvLine comma (g # fs)"
    using pf(1) by (auto simp: dropWhile_append3)
  have tw: "takeWhile (\<lambda>c. c \<noteq> comma) ?line = f"
    using pf(1) by (auto simp: takeWhile_tail)
  have "parseField comma ?line rest dst = parseField comma (csvLine comma (g # fs)) rest (dst @ [f])"
    by (subst parseField.simps, subst if_P[OF hd]) (simp add: dw tw Let_def pf del: csvLine.simps)
  with "3.IH"[of "dst @ [f]"] "3.prems" show ?case
    by simp
qed

lemma normalizeLine_plain:
  assumes "rune_cr \<notin> set b"
  shows "normalizeLine (b @ [rune_nl]) = b @ [rune_nl]"
proof (cases b rule: rev_cases)
  case Nil
  then show ?thesis by (simp add: normalizeLine_def)
next
  case (snoc b' x)
  with assms have "x \<noteq> rune_cr" by auto
  moreover have "(b' @ [x, rune_nl]) ! length b' = x"
    by (simp add: nth_append)
  ultimately show ?thesis
    using snoc by (simp add: normalizeLine_def Let_def)
qed

lemma readLine_csvLine:
  assumes "\<forall>f \<in> set fs. plainField comma f" and "validDelim comma"
  shows "readLine (csvLine comma fs @ after) = (csvLine comma fs, False, after)"
proof -
  let ?L = "csvLine comma fs"
  from assms(2) have delim: "comma \<noteq> rune_nl" "comma \<noteq> rune_cr"
    by (simp_all add: validDelim_def)
  have L: "?L = butlast ?L @ [rune_nl]"
    using csvLine_not_Nil[of comma fs] csvLine_last[of comma fs]
    by (metis append_butlast_last_id)
  have nonl: "rune_nl \<notin> set (butlast ?L)"
    by (rule csvLine_no_nl[OF assms(1) delim(1)])
  have nocr: "rune_cr \<notin> set (butlast ?L)"
    by (rule csvLine_no_cr_end[OF assms(1) delim(2)])
  have split: "?L @ after = butlast ?L @ rune_nl # after"
    by (subst L) simp
  have dw: "dropWhile (\<lambda>c. c \<noteq> rune_nl) (?L @ after) = rune_nl # after"
    unfolding split using nonl by (auto simp: dropWhile_append3)
  have tw: "takeWhile (\<lambda>c. c \<noteq> rune_nl) (?L @ after) = butlast ?L"
    unfolding split using nonl by (auto simp: takeWhile_tail)
  have norm: "normalizeLine (butlast ?L @ [rune_nl]) = butlast ?L @ [rune_nl]"
    by (rule normalizeLine_plain[OF nocr])
  have "readLine (?L @ after) = (butlast ?L @ [rune_nl], False, after)"
    by (simp add: readLine_def dw tw norm del: butlast.simps)
  with L show ?thesis by simp
qed

lemma Read_csvLine:
  assumes "fs \<noteq> []" and "fs \<noteq> [[]]" and "\<forall>f \<in> set fs. plainField (r_Comma r) f"
    and "validDelim (r_Comma r)" and "r_input r = csvLine (r_Comma r) fs @ after"
    and "r_FieldsPerRecord r = 0 \<or> r_FieldsPerRecord r = length fs"
  shows "Read r = (Inr fs, r\<lparr>r_input := after, r_FieldsPerRecord := length fs\<rparr>)"
proof -
  let ?L = "csvLine (r_Comma r) fs"
  have len: "length ?L \<noteq> lengthNL ?L"
  proof -
    from assms(1,2) have "1 < length ?L"
      using csvLine_not_Nil[of "r_Comma r"]
      by (cases "(r_Comma r, fs)" rule: csvLine.cases) (auto simp: Suc_lessI)
    then show ?thesis by (auto simp: lengthNL_def)
  qed
  have "nextLine (?L @ after) = (?L, False, after)"
    by (subst nextLine.simps) (simp add: readLine_csvLine[OF assms(3,4)] len)
  moreover have "parseField (r_Comma r) ?L after [] = (Inr fs, after)"
    using parseField_csvLine[OF assms(1,3,4), of after "[]"] by simp
  ultimately show ?thesis
    using assms(1,4,5,6) by (auto simp: Read_def)
qed

lemma jobReads_header_only:
  assumes "header \<noteq> []" and "header \<noteq> [[]]" and "\<forall>f \<in> set header. plainField (delimiter j) f"
  shows "jobReads j (csvLine (delimiter j) header) = [Inr header]"
proof -
  let ?r = "(NewReader (csvLine (delimiter j) header))\<lparr>r_Comma := delimiter j\<rparr>"
  let ?r' = "?r\<lparr>r_input := [], r_FieldsPerRecord := length header\<rparr>"
  have "Read ?r = (Inr header, ?r')"
    by (rule Read_csvLine) (simp_all add: assms validDelim_delimiter NewReader_def)
  then have "reads ?r = Inr header # reads ?r'"
    by (subst reads.simps) simp
  moreover have "reads ?r' = []"
  proof -
    have "readLine [] = ([], True, [])"
      by (simp add: readLine_def)
    then have "nextLine [] = ([], True, [])"
      by (subst nextLine.simps) simp
    then have "fst (Read ?r') = Inl EOF"
      by (simp add: Read_def NewReader_def validDelim_delimiter)
    then show ?thesis
      by (subst reads.simps) (auto split: prod.splits sum.splits)
  qed
  ultimately show ?thesis by (simp add: jobReads_def)
qed

text \<open>
  Claim C10. For every delimiter setting, when the input holds exactly one row (the
  header) and no data rows both parsers return no records and no error; that is so in
  particular for a header line of plain fields joined by the job's delimiter. On the
  empty input, where there is no header row, both return no records and the error
  \<^verbatim>\<open>io.EOF\<close>.
\<close>

theorem header_only_and_empty_input:
  "(jobReads j stream = [Inr header] \<longrightarrow>
      ParseSuccessfulResults j stream = Done ([], None) \<and>
      ParseFailedResults j stream = Done ([], None)) \<and>
   (header \<noteq> [] \<and> header \<noteq> [[]] \<and> (\<forall>f \<in> set header. plainField (delimiter j) f) \<longrightarrow>
      ParseSuccessfulResults j (csvLine (delimiter j) header) = Done ([], None) \<and>
      ParseFailedResults j (csvLine (delimiter j) header) = Done ([], None)) \<and>
   ParseSuccessfulResults j [] = Done ([], Some EOF) \<and>
   ParseFailedResults j [] = Done ([], Some EOF)"
  by (simp add: ParseSuccessfulResults_def ParseFailedResults_def successfulResults_def
      failedResults_def jobReads_empty jobReads_header_only)

lemma jobReads_header_only_tab:
  "jobReads tab_job
     (''sf__Id'' @ [CHR 0x09] @ ''sf__Created'' @ [CHR 0x09] @ ''Name'' @ [CHR 0x0A])
   = [Inr [''sf__Id'', ''sf__Created'', ''Name'']]"
  by code_simp

theorem header_only_and_empty_input_witness:
  "csvLine (delimiter tab_job) [''sf__Id'', ''sf__Created'', ''Name'']
     = ''sf__Id'' @ [CHR 0x09] @ ''sf__Created'' @ [CHR 0x09] @ ''Name'' @ [CHR 0x0A] \<and>
   jobReads tab_job
     (''sf__Id'' @ [CHR 0x09] @ ''sf__Created'' @ [CHR 0x09] @ ''Name'' @ [CHR 0x0A])
     = [Inr [''sf__Id'', ''sf__Created'', ''Name'']] \<and>
   ParseSuccessfulResults tab_job
     (''sf__Id'' @ [CHR 0x09] @ ''sf__Created'' @ [CHR 0x09] @ ''Name'' @ [CHR 0x0A])
     = Done ([], None) \<and>
   ParseFailedResults tab_job
     (''sf__Id'' @ [CHR 0x09] @ ''sf__Created'' @ [CHR 0x09] @ ''Name'' @ [CHR 0x0A])
     = Done ([], None)"
proof -
  let ?header = "[''sf__Id'', ''sf__Created'', ''Name'']"
  let ?stream = "''sf__Id'' @ [CHR 0x09] @ ''sf__Created'' @ [CHR 0x09] @ ''Name'' @ [CHR 0x0A]"
  have d: "delimiter tab_job = CHR 0x09"
    by (simp add: tab_job_def delimiter_def zero_WriteResponse_def delimiter_names
        delimiter_runes)
  have line: "csvLine (delimiter tab_job) ?header = ?stream"
    by (simp add: d rune_nl_def)
  have plain: "?header \<noteq> [] \<and> ?header \<noteq> [[]] \<and>
      (\<forall>f \<in> set ?header. plainField (delimiter tab_job) f)"
    by (simp add: d plainField_def rune_quote_def rune_nl_def rune_cr_def)
  from header_only_and_empty_input [of tab_job ?stream ?header] jobReads_header_only_tab
    plain line
  show ?thesis by simp
qed









lemma successful_rows_example:
  "list_all2
     (\<lambda>values record.
        successfulRecord [''sf__Id'', ''sf__Created'', ''Name''] values = Done (Inr record))
     [[''001'', ''true'', ''Acme'']]
     [\<lparr>Fields = [''Name'' \<mapsto> ''Acme''], ID = ''001'', Created = True\<rparr>]"
  by (simp add: successfulRecord_eval)




lemma jobReads_no_id_later_bad_created:
  "jobReads comma_job ''sf__Created,Name\<newline>true,A\<newline>maybe,B\<newline>''
     = [Inr [''sf__Created'', ''Name''], Inr [''true'', ''A''], Inr [''maybe'', ''B'']]"
  by code_simp

text \<open>
  Claim C8 says that every data row whose \<^verbatim>\<open>sf__Created\<close> value is not a boolean
  literal makes \<^verbatim>\<open>ParseSuccessfulResults\<close> return a format error and no records. That
  fails on the header \<^verbatim>\<open>sf__Created,Name\<close> with the rows \<^verbatim>\<open>true,A\<close> and
  \<^verbatim>\<open>maybe,B\<close>: the first row passes \<^verbatim>\<open>strconv.ParseBool\<close>, the lookup of the missing
  \<^verbatim>\<open>sf__Id\<close> column gives \<open>-1\<close>, and indexing the row there panics before the second
  row is read.
\<close>

theorem invalid_created_after_panic_counterexample:
  "jobReads comma_job ''sf__Created,Name\<newline>true,A\<newline>maybe,B\<newline>''
     = [Inr [''sf__Created'', ''Name''], Inr [''true'', ''A''], Inr [''maybe'', ''B'']] \<and>
   headerPosition sfCreated [''sf__Created'', ''Name''] = 0 \<and>
   ParseBool ''maybe'' = Inl (NumError ''ParseBool'' ''maybe'') \<and>
   ParseSuccessfulResults comma_job ''sf__Created,Name\<newline>true,A\<newline>maybe,B\<newline>''
     = Panics (IndexOutOfRange (- 1) 2)"
  by (simp add: jobReads_no_id_later_bad_created ParseSuccessfulResults_def
      successfulResults_def successfulRecord_eval)

text \<open>
  Claim C8, amended. When the parser reaches a data row (every earlier row parsed into
  a record) whose \<^verbatim>\<open>sf__Created\<close> value is none of the boolean literals
  \<^verbatim>\<open>strconv.ParseBool\<close> accepts, \<^verbatim>\<open>ParseSuccessfulResults\<close> returns the format error
  for that value and no records. When the header has both reserved columns, a result
  set with such a row anywhere fails with an error and no records.
\<close>

theorem invalid_created_fails_parse:
  "(jobReads j stream = Inr header # map Inr rows @ Inr values # rest \<and>
    list_all2 (\<lambda>values record. successfulRecord header values = Done (Inr record)) rows srecs \<and>
    sfCreated \<in> set header \<and>
    values ! nat (headerPosition sfCreated header)
      \<notin> {''1'', ''t'', ''T'', ''TRUE'', ''true'', ''True'',
         ''0'', ''f'', ''F'', ''FALSE'', ''false'', ''False''}
    \<longrightarrow> ParseSuccessfulResults j stream =
          Done ([], Some (NumError ''ParseBool''
                  (values ! nat (headerPosition sfCreated header))))) \<and>
   (jobReads j stream = Inr header # rs \<and> Inr values \<in> set rs \<and>
    sfCreated \<in> set header \<and> sfID \<in> set header \<and>
    values ! nat (headerPosition sfCreated header)
      \<notin> {''1'', ''t'', ''T'', ''TRUE'', ''true'', ''True'',
         ''0'', ''f'', ''F'', ''FALSE'', ''false'', ''False''}
    \<longrightarrow> (\<exists>err. ParseSuccessfulResults j stream = Done ([], Some err)))"
proof (intro conjI impI)
  let ?s = "values ! nat (headerPosition sfCreated header)"
  assume a: "jobReads j stream = Inr header # map Inr rows @ Inr values # rest \<and>
    list_all2 (\<lambda>values record. successfulRecord header values = Done (Inr record)) rows srecs \<and>
    sfCreated \<in> set header \<and>
    ?s \<notin> {''1'', ''t'', ''T'', ''TRUE'', ''true'', ''True'',
         ''0'', ''f'', ''F'', ''FALSE'', ''false'', ''False''}"
  then have len: "length values = length header"
    by (intro jobReads_lengths[of j stream header "map Inr rows @ Inr values # rest"]) simp_all
  from a have pb: "ParseBool ?s = Inl (NumError ''ParseBool'' ?s)"
    by (intro ParseBool_invalid) simp
  from a len pb have row: "successfulRecord header values = Done (Inl (NumError ''ParseBool'' ?s))"
    by (intro successfulRecord_bad_bool) simp_all
  from a have "successfulLoop header [] (map Inr rows @ Inr values # rest)
      = successfulLoop header ([] @ srecs) (Inr values # rest)"
    by (intro successfulLoop_rows) simp
  with a row show "ParseSuccessfulResults j stream = Done ([], Some (NumError ''ParseBool'' ?s))"
    by (simp add: ParseSuccessfulResults_def successfulResults_def)
next
  let ?s = "values ! nat (headerPosition sfCreated header)"
  assume a: "jobReads j stream = Inr header # rs \<and> Inr values \<in> set rs \<and>
    sfCreated \<in> set header \<and> sfID \<in> set header \<and>
    ?s \<notin> {''1'', ''t'', ''T'', ''TRUE'', ''true'', ''True'',
         ''0'', ''f'', ''F'', ''FALSE'', ''false'', ''False''}"
  then have lens: "\<forall>vs. Inr vs \<in> set rs \<longrightarrow> length vs = length header"
    by (auto dest: jobReads_lengths)
  from a jobReads_no_EOF[of j stream] have noeof: "Inl EOF \<notin> set rs"
    by auto
  from a have pb: "ParseBool ?s = Inl (NumError ''ParseBool'' ?s)"
    by (intro ParseBool_invalid) simp
  from a successfulLoop_bad_bool[OF _ _ lens noeof _ pb, of "[]"]
  obtain err where "successfulLoop header [] rs = Done ([], Some err)"
    by blast
  with a show "\<exists>err. ParseSuccessfulResults j stream = Done ([], Some err)"
    by (simp add: ParseSuccessfulResults_def successfulResults_def)
qed

lemma jobReads_bad_created:
  "jobReads comma_job
     ''sf__Id,sf__Created,Name\<newline>001,true,Acme\<newline>002,maybe,Beta\<newline>''
   = Inr [''sf__Id'', ''sf__Created'', ''Name'']
       # map Inr [[''001'', ''true'', ''Acme'']] @ Inr [''002'', ''maybe'', ''Beta''] # []"
  by code_simp

theorem invalid_created_fails_parse_witness:
  "jobReads comma_job
     ''sf__Id,sf__Created,Name\<newline>001,true,Acme\<newline>002,maybe,Beta\<newline>''
   = [Inr [''sf__Id'', ''sf__Created'', ''Name''], Inr [''001'', ''true'', ''Acme''],
      Inr [''002'', ''maybe'', ''Beta'']] \<and>
   sfID \<in> set [''sf__Id'', ''sf__Created'', ''Name''] \<and>
   sfCreated \<in> set [''sf__Id'', ''sf__Created'', ''Name''] \<and>
   ParseSuccessfulResults comma_job
     ''sf__Id,sf__Created,Name\<newline>001,true,Acme\<newline>002,maybe,Beta\<newline>''
   = Done ([], Some (NumError ''ParseBool'' ''maybe''))"
proof -
  let ?stream = "''sf__Id,sf__Created,Name\<newline>001,true,Acme\<newline>002,maybe,Beta\<newline>''"
  let ?header = "[''sf__Id'', ''sf__Created'', ''Name'']"
  let ?bad = "[''002'', ''maybe'', ''Beta'']"
  have pos: "?bad ! nat (headerPosition sfCreated ?header) = ''maybe''"
    by (simp add: headerPosition_def sfCreated_def)
  have hdr: "sfCreated \<in> set ?header"
    by (simp add: sfCreated_def)
  from invalid_created_fails_parse [of comma_job ?stream ?header
      "[[''001'', ''true'', ''Acme'']]" ?bad "[]"
      "[\<lparr>Fields = [''Name'' \<mapsto> ''Acme''], ID = ''001'', Created = True\<rparr>]"]
    jobReads_bad_created successful_rows_example hdr pos
  have "ParseSuccessfulResults comma_job ?stream = Done ([], Some (NumError ''ParseBool'' ''maybe''))"
    by simp
  with jobReads_bad_created show ?thesis by (simp add: sfID_def sfCreated_def)
qed

section \<open>A reserved column that the header lacks\<close>

lemma jobReads_no_id_bad_created:
  "jobReads comma_job ''sf__Created,Name\<newline>maybe,Acme\<newline>''
     = [Inr [''sf__Created'', ''Name''], Inr [''maybe'', ''Acme'']]"
  by code_simp

lemma jobReads_no_id:
  "jobReads comma_job ''sf__Created,Name\<newline>true,Acme\<newline>''
     = [Inr [''sf__Created'', ''Name''], Inr [''true'', ''Acme'']]"
  by code_simp

lemma jobReads_no_error_column:
  "jobReads comma_job ''sf__Id,Name\<newline>001,Acme\<newline>''
     = [Inr [''sf__Id'', ''Name''], Inr [''001'', ''Acme'']]"
  by code_simp

text \<open>
  Claim C2 says that whenever the header lacks a reserved column the parser uses the
  \<open>-1\<close> of \<^verbatim>\<open>headerPosition\<close> as an index into the data row. That fails for
  \<^verbatim>\<open>ParseSuccessfulResults\<close> on the header \<^verbatim>\<open>sf__Created,Name\<close>, which lacks
  \<^verbatim>\<open>sf__Id\<close>, and the data row \<^verbatim>\<open>maybe,Acme\<close>: the \<^verbatim>\<open>sf__Created\<close> value is
  parsed first, \<^verbatim>\<open>strconv.ParseBool\<close> rejects it, and the parser returns that error
  before it ever looks \<^verbatim>\<open>sf__Id\<close> up.
\<close>

theorem missing_id_column_counterexample:
  "sfID \<notin> set [''sf__Created'', ''Name''] \<and>
   jobReads comma_job ''sf__Created,Name\<newline>maybe,Acme\<newline>''
     = [Inr [''sf__Created'', ''Name''], Inr [''maybe'', ''Acme'']] \<and>
   ParseSuccessfulResults comma_job ''sf__Created,Name\<newline>maybe,Acme\<newline>''
     = Done ([], Some (NumError ''ParseBool'' ''maybe''))"
  by (simp add: jobReads_no_id_bad_created ParseSuccessfulResults_def successfulResults_def
      successfulRecord_eval)

text \<open>
  Claim C2, amended. \<^verbatim>\<open>headerPosition\<close> returns \<open>-1\<close> for a column the header
  lacks. On the first data row \<^verbatim>\<open>ParseFailedResults\<close> panics with index \<open>-1\<close> out of
  range when \<^verbatim>\<open>sf__Error\<close> or \<^verbatim>\<open>sf__Id\<close> is missing; \<^verbatim>\<open>ParseSuccessfulResults\<close>
  panics with index \<open>-1\<close> out of range when \<^verbatim>\<open>sf__Created\<close> is missing, and when
  \<^verbatim>\<open>sf__Id\<close> is missing and the row's \<^verbatim>\<open>sf__Created\<close> value is a boolean literal;
  when \<^verbatim>\<open>sf__Id\<close> is missing and that value is not a boolean literal it returns the
  error of \<^verbatim>\<open>strconv.ParseBool\<close> and no records. The column's absence is reported as
  an error in none of these cases.
\<close>

theorem missing_column_index:
  "(column \<notin> set header \<longrightarrow> headerPosition column header = - 1) \<and>
   (jobReads j stream = Inr header # Inr values # rest \<and>
    (sfError \<notin> set header \<or> sfID \<notin> set header)
      \<longrightarrow> ParseFailedResults j stream = Panics (IndexOutOfRange (- 1) (length values))) \<and>
   (jobReads j stream = Inr header # Inr values # rest \<and> sfCreated \<notin> set header
      \<longrightarrow> ParseSuccessfulResults j stream = Panics (IndexOutOfRange (- 1) (length values))) \<and>
   (jobReads j stream = Inr header # Inr values # rest \<and>
    sfCreated \<in> set header \<and> sfID \<notin> set header \<and>
    ParseBool (values ! nat (headerPosition sfCreated header)) = Inr created
      \<longrightarrow> ParseSuccessfulResults j stream = Panics (IndexOutOfRange (- 1) (length values))) \<and>
   (jobReads j stream = Inr header # Inr values # rest \<and>
    sfCreated \<in> set header \<and> sfID \<notin> set header \<and>
    ParseBool (values ! nat (headerPosition sfCreated header)) = Inl err
      \<longrightarrow> ParseSuccessfulResults j stream = Done ([], Some err))"
proof -
  have len: "length values = length header"
    if "jobReads j stream = Inr header # Inr values # rest"
    using that by (intro jobReads_lengths[of j stream header "Inr values # rest"]) simp_all
  show ?thesis
    by (auto simp: headerPosition_absent ParseFailedResults_def ParseSuccessfulResults_def
        failedResults_def successfulResults_def len failedRecord_missing_column
        successfulRecord_missing_created successfulRecord_missing_id successfulRecord_bad_bool)
qed

theorem missing_column_index_witness:
  "headerPosition sfID [''sf__Created'', ''Name''] = - 1 \<and>
   ParseFailedResults comma_job ''sf__Id,Name\<newline>001,Acme\<newline>''
     = Panics (IndexOutOfRange (- 1) 2) \<and>
   ParseSuccessfulResults comma_job ''sf__Id,Name\<newline>001,Acme\<newline>''
     = Panics (IndexOutOfRange (- 1) 2) \<and>
   ParseSuccessfulResults comma_job ''sf__Created,Name\<newline>true,Acme\<newline>''
     = Panics (IndexOutOfRange (- 1) 2) \<and>
   ParseSuccessfulResults comma_job ''sf__Created,Name\<newline>maybe,Acme\<newline>''
     = Done ([], Some (NumError ''ParseBool'' ''maybe''))"
proof -
  have absent: "sfID \<notin> set [''sf__Created'', ''Name'']" "sfError \<notin> set [''sf__Id'', ''Name'']"
    "sfCreated \<notin> set [''sf__Id'', ''Name'']"
    and present: "sfCreated \<in> set [''sf__Created'', ''Name'']"
    by (simp_all add: sfID_def sfError_def sfCreated_def)
  have pos: "headerPosition sfCreated [''sf__Created'', ''Name''] = 0"
    by (simp add: headerPosition_def sfCreated_def)
  have pb: "ParseBool ''true'' = Inr True"
    "ParseBool ''maybe'' = Inl (NumError ''ParseBool'' ''maybe'')"
    by (simp_all add: ParseBool_def)
  from missing_column_index [of sfID "[''sf__Created'', ''Name'']"] absent
  have 1: "headerPosition sfID [''sf__Created'', ''Name''] = - 1"
    by simp
  from missing_column_index [of _ "[''sf__Id'', ''Name'']" comma_job
      "''sf__Id,Name\<newline>001,Acme\<newline>''" "[''001'', ''Acme'']" "[]"]
    jobReads_no_error_column absent
  have 2: "ParseFailedResults comma_job ''sf__Id,Name\<newline>001,Acme\<newline>''
     = Panics (IndexOutOfRange (- 1) 2)"
    and 3: "ParseSuccessfulResults comma_job ''sf__Id,Name\<newline>001,Acme\<newline>''
     = Panics (IndexOutOfRange (- 1) 2)"
    by simp_all
  from missing_column_index [of _ "[''sf__Created'', ''Name'']" comma_job
      "''sf__Created,Name\<newline>true,Acme\<newline>''" "[''true'', ''Acme'']" "[]" True]
    jobReads_no_id absent present pos pb
  have 4: "ParseSuccessfulResults comma_job ''sf__Created,Name\<newline>true,Acme\<newline>''
     = Panics (IndexOutOfRange (- 1) 2)"
    by simp
  from missing_column_index [of _ "[''sf__Created'', ''Name'']" comma_job
      "''sf__Created,Name\<newline>maybe,Acme\<newline>''" "[''maybe'', ''Acme'']" "[]" _
      "NumError ''ParseBool'' ''maybe''"]
    jobReads_no_id_bad_created absent present pos pb
  have 5: "ParseSuccessfulResults comma_job ''sf__Created,Name\<newline>maybe,Acme\<newline>''
     = Done ([], Some (NumError ''ParseBool'' ''maybe''))"
    by simp
  from 1 2 3 4 5 show ?thesis by simp
qed

section \<open>Exporting a page of query results\<close>

lemma Itoa_2000: "Itoa 2000 = ''2000''"
  by code_simp

text \<open>
  Claim C7 says that every call of \<^verbatim>\<open>ExportResults\<close> that receives a 200 response
  writes the body to the file and returns the \<^verbatim>\<open>Sforce-Locator\<close> header. That fails
  when \<^verbatim>\<open>os.Create\<close> fails: the request is sent, the response has status 200 and
  carries a locator, and the call returns the empty string with the file system's error
  and writes no file.
\<close>

theorem ExportResults_create_fails_counterexample:
  "snd (snd (ExportResults no_file_Env query_job_750 Map.empty ''out.csv'' 0 []))
     = [page_request []] \<and>
   Do no_file_Env (page_request []) = Inr page_Response \<and>
   StatusCode page_Response = 200 \<and>
   Header_Get (resp_Header page_Response) ''Sforce-Locator'' = ''MTAwMDA'' \<and>
   fst (ExportResults no_file_Env query_job_750 Map.empty ''out.csv'' 0 [])
     = ([], Some (External ''open out.csv: permission denied'')) \<and>
   fst (snd (ExportResults no_file_Env query_job_750 Map.empty ''out.csv'' 0 [])) ''out.csv''
     = None"
  by (simp add: ExportResults_def NewRequest_def Header_Add_def Header_Get_def Let_def
      no_file_Env_def page_Env_def zero_Env_def page_Response_def page_request_def
      query_job_750_def zero_QueryResponse_def query_bulk2Endpoint_def)

text \<open>
  Claim C7, amended. \<^verbatim>\<open>ExportResults\<close> sends one GET request whose query has the
  \<^verbatim>\<open>locator\<close> parameter exactly when the locator argument is non-empty and the
  \<^verbatim>\<open>maxRecords\<close> parameter, in decimal, exactly when \<^verbatim>\<open>maxRecords\<close> is positive.
  When the response has status 200, the file is created and the body is copied without
  error, the file holds the body and the call returns the first value of the
  \<^verbatim>\<open>Sforce-Locator\<close> header (the empty string when there is none) and no error. When
  creating the file or copying the body fails, the call returns the empty string and
  that error.
\<close>

theorem ExportResults_ok:
  "url_Parse env (ServiceURL env @ query_bulk2Endpoint @ ''/'' @ qr_ID (QueryResponse j)
                   @ ''/results'') = Inr q0 \<and>
   request = AuthorizationHeader env
     \<lparr>Method = ''GET'',
      URL = ServiceURL env @ query_bulk2Endpoint @ ''/'' @ qr_ID (QueryResponse j) @ ''/results'',
      URL_Query = q0 @ (if locator \<noteq> [] then [(''locator'', locator)] else [])
                     @ (if 0 < maxRecords then [(''maxRecords'', Itoa maxRecords)] else []),
      Header = [(''Accept'', ''text/csv''), (''Content-Type'', ''application/json'')],
      Body = NoBody\<rparr> \<and>
   Do env request = Inr resp \<and> StatusCode resp = 200
   \<longrightarrow>
     (os_Create env filepath = None \<and> io_Copy env (resp_Body resp) = None \<longrightarrow>
        ExportResults env j files filepath maxRecords locator =
          ((Header_Get (resp_Header resp) ''Sforce-Locator'', None),
           files(filepath \<mapsto> resp_Body resp), [request])) \<and>
     (os_Create env filepath = Some err \<longrightarrow>
        ExportResults env j files filepath maxRecords locator =
          (([], Some err), files, [request])) \<and>
     (os_Create env filepath = None \<and> io_Copy env (resp_Body resp) = Some (n, err) \<longrightarrow>
        ExportResults env j files filepath maxRecords locator =
          (([], Some err), files(filepath \<mapsto> take n (resp_Body resp)), [request]))"
  by (auto simp: ExportResults_def NewRequest_def Header_Add_def Let_def)

theorem ExportResults_ok_witness:
  "ExportResults page_Env query_job_750 Map.empty ''out.csv'' 2000 ''MDAwMDA''
     = ((''MTAwMDA'', None), [''out.csv'' \<mapsto> ''Id\<newline>001\<newline>''],
        [page_request [(''locator'', ''MDAwMDA''), (''maxRecords'', ''2000'')]]) \<and>
   ExportResults page_Env query_job_750 Map.empty ''out.csv'' 0 []
     = ((''MTAwMDA'', None), [''out.csv'' \<mapsto> ''Id\<newline>001\<newline>''], [page_request []]) \<and>
   ExportResults no_file_Env query_job_750 Map.empty ''out.csv'' 0 []
     = (([], Some (External ''open out.csv: permission denied'')), Map.empty, [page_request []])"
proof -
  note url = page_Env_def no_file_Env_def zero_Env_def query_bulk2Endpoint_def
    query_job_750_def zero_QueryResponse_def
  have resp: "StatusCode page_Response = 200"
    "Header_Get (resp_Header page_Response) ''Sforce-Locator'' = ''MTAwMDA''"
    "resp_Body page_Response = ''Id\<newline>001\<newline>''"
    by (simp_all add: page_Response_def Header_Get_def)
  from ExportResults_ok [of page_Env query_job_750 "[]"
      "page_request [(''locator'', ''MDAwMDA''), (''maxRecords'', ''2000'')]"
      "''MDAwMDA''" 2000 page_Response "''out.csv''" Map.empty]
  have 1: "ExportResults page_Env query_job_750 Map.empty ''out.csv'' 2000 ''MDAwMDA''
     = ((''MTAwMDA'', None), [''out.csv'' \<mapsto> ''Id\<newline>001\<newline>''],
        [page_request [(''locator'', ''MDAwMDA''), (''maxRecords'', ''2000'')]])"
    by (simp add: url resp Itoa_2000 page_request_def Header_Add_def)
  from ExportResults_ok [of page_Env query_job_750 "[]" "page_request []" "[]" 0 page_Response
      "''out.csv''" Map.empty]
  have 2: "ExportResults page_Env query_job_750 Map.empty ''out.csv'' 0 []
     = ((''MTAwMDA'', None), [''out.csv'' \<mapsto> ''Id\<newline>001\<newline>''], [page_request []])"
    by (simp add: url resp page_request_def Header_Add_def)
  from ExportResults_ok [of no_file_Env query_job_750 "[]" "page_request []" "[]" 0 page_Response
      "''out.csv''" Map.empty "External ''open out.csv: permission denied''"]
  have 3: "ExportResults no_file_Env query_job_750 Map.empty ''out.csv'' 0 []
     = (([], Some (External ''open out.csv: permission denied'')), Map.empty, [page_request []])"
    by (simp add: url resp page_request_def Header_Add_def)
  from 1 2 3 show ?thesis by simp
qed

end
